theory Spec2Isabelle
  imports Main
begin

section \<open>Python strings\<close>

text \<open>
  The analysis script works on text cells of a table. Strings are modelled as
  \<^typ>\<open>string\<close>, restricted to ASCII text: the whitespace and digit classes
  below are the ASCII part of Python's \<^verbatim>\<open>str.isspace\<close> and of the digits
  \<^verbatim>\<open>int\<close> accepts.
\<close>

datatype py_error = KeyError | ValueError | IndexError | TypeError | AttributeError

definition is_space :: "char \<Rightarrow> bool" where
  "is_space c = (let n = (of_char c :: nat) in (9 \<le> n \<and> n \<le> 13) \<or> (28 \<le> n \<and> n \<le> 32))"

definition is_digit :: "char \<Rightarrow> bool" where
  "is_digit c = (let n = (of_char c :: nat) in 48 \<le> n \<and> n \<le> 57)"

definition digit_val :: "char \<Rightarrow> nat" where
  "digit_val c = (of_char c :: nat) - 48"

text \<open>\<^verbatim>\<open>s.strip()\<close>: whitespace removed at both ends.\<close>

definition py_strip :: "string \<Rightarrow> string" where
  "py_strip s = rev (dropWhile is_space (rev (dropWhile is_space s)))"

text \<open>\<^verbatim>\<open>s.lower()\<close> on ASCII letters.\<close>

definition lower_char :: "char \<Rightarrow> char" where
  "lower_char c =
     (case map_of (zip ''ABCDEFGHIJKLMNOPQRSTUVWXYZ'' ''abcdefghijklmnopqrstuvwxyz'') c of
        None \<Rightarrow> c
      | Some d \<Rightarrow> d)"

definition py_lower :: "string \<Rightarrow> string" where
  "py_lower s = map lower_char s"

text \<open>
  \<^verbatim>\<open>s.split(",")\<close>: the pieces between separators; the empty string gives one
  empty piece.
\<close>

fun split_on :: "char \<Rightarrow> string \<Rightarrow> string list" where
  "split_on c [] = [[]]"
| "split_on c (x # xs) =
     (if x = c then [] # split_on c xs
      else (case split_on c xs of
              [] \<Rightarrow> [[x]]
            | t # ts \<Rightarrow> (x # t) # ts))"

text \<open>
  \<^verbatim>\<open>s.split()\<close>: the maximal runs of non-whitespace characters, scanned left
  to right with the token read so far; a string of whitespace only gives no token.
\<close>

fun tokens :: "string \<Rightarrow> string \<Rightarrow> string list" where
  "tokens cur [] = (if cur = [] then [] else [cur])"
| "tokens cur (x # xs) =
     (if is_space x then (if cur = [] then tokens [] xs else cur # tokens [] xs)
      else tokens (cur @ [x]) xs)"

definition split_ws :: "string \<Rightarrow> string list" where
  "split_ws s = tokens [] s"

text \<open>\<^verbatim>\<open>sub in s\<close>: \<open>sub\<close> occurs as a contiguous piece of \<open>s\<close>.\<close>

fun starts_with :: "string \<Rightarrow> string \<Rightarrow> bool" where
  "starts_with [] s = True"
| "starts_with (p # ps) [] = False"
| "starts_with (p # ps) (x # xs) = (p = x \<and> starts_with ps xs)"

fun contains :: "string \<Rightarrow> string \<Rightarrow> bool" where
  "contains sub [] = (sub = [])"
| "contains sub (x # xs) = (starts_with sub (x # xs) \<or> contains sub xs)"

text \<open>
  \<^verbatim>\<open>int(t)\<close> on text: surrounding whitespace is ignored, then an optional sign,
  then decimal digits, where single underscores may stand between digits. Anything
  else raises \<^verbatim>\<open>ValueError\<close>.
\<close>

fun digits :: "nat \<Rightarrow> bool \<Rightarrow> string \<Rightarrow> nat option" where
  "digits acc after_digit [] = (if after_digit then Some acc else None)"
| "digits acc after_digit (c # cs) =
     (if is_digit c then digits (acc * 10 + digit_val c) True cs
      else if c = CHR ''_'' \<and> after_digit then digits acc False cs
      else None)"

definition py_int :: "string \<Rightarrow> py_error + int" where
  "py_int s =
     (case py_strip s of
        [] \<Rightarrow> Inl ValueError
      | c # cs \<Rightarrow>
          if c = CHR ''-'' then
            (case digits 0 False cs of None \<Rightarrow> Inl ValueError | Some n \<Rightarrow> Inr (- int n))
          else if c = CHR ''+'' then
            (case digits 0 False cs of None \<Rightarrow> Inl ValueError | Some n \<Rightarrow> Inr (int n))
          else
            (case digits 0 False (c # cs) of None \<Rightarrow> Inl ValueError | Some n \<Rightarrow> Inr (int n)))"

section \<open>Tables\<close>

text \<open>
  A pandas table is an ordered list of named columns over a common number of rows
  (\<open>rectangular\<close> below). A cell is missing (\<^verbatim>\<open>NaN\<close>, \<^verbatim>\<open>NaT\<close>), a text, a
  number, a timestamp (year, month, day) or a list of texts. \<^verbatim>\<open>pd.read_csv\<close> hands
  over columns of texts and columns of numbers, where cells may be missing; a column
  whose cells are all missing counts as a column of numbers. Timestamps and lists are
  what the cleaning step derives. The model covers tables whose column names stay
  distinct when trimmed (\<open>well_formed\<close> below): pandas keeps both columns of a
  repeated name, which a lookup by name does not express.
\<close>

datatype cell = NaN | Str string | Num int | Date int nat nat | Lst "string list"

record frame =
  nrows :: nat
  columns :: "(string \<times> cell list) list"

definition rectangular :: "frame \<Rightarrow> bool" where
  "rectangular df = list_all (\<lambda>(c, xs). length xs = nrows df) (columns df)"

definition well_formed :: "frame \<Rightarrow> bool" where
  "well_formed df = (distinct (map (py_strip \<circ> fst) (columns df)) \<and> rectangular df)"

text \<open>\<^verbatim>\<open>pd.isna(x)\<close>, and \<^verbatim>\<open>str(x)\<close>: a text is itself, an integer is written in
  decimal, a missing cell is \<open>nan\<close>. Numbers are the integers of an integer column;
  numbers with a fractional part, and the float form pandas gives the numbers of a
  column that has missing cells, are outside the model. The script never renders a
  timestamp or a list, which are left empty here.\<close>

definition digit_char :: "nat \<Rightarrow> char" where
  "digit_char d = ''0123456789'' ! d"

function show_nat :: "nat \<Rightarrow> string" where
  "show_nat n = (if n < 10 then [digit_char n] else show_nat (n div 10) @ [digit_char (n mod 10)])"
  by pat_completeness auto
termination
  by (relation "measure id") auto

declare show_nat.simps [simp del]

definition show_int :: "int \<Rightarrow> string" where
  "show_int i = (if i < 0 then CHR ''-'' # show_nat (nat (- i)) else show_nat (nat i))"

definition isna :: "cell \<Rightarrow> bool" where
  "isna c = (c = NaN)"

fun py_str :: "cell \<Rightarrow> string" where
  "py_str (Str s) = s"
| "py_str NaN = ''nan''"
| "py_str (Num n) = show_int n"
| "py_str (Date y m d) = []"
| "py_str (Lst xs) = []"

text \<open>\<^verbatim>\<open>df[col]\<close> raises \<^verbatim>\<open>KeyError\<close> when there is no such column;
  \<^verbatim>\<open>col in df.columns\<close> is the test \<open>map_of (columns df) col \<noteq> None\<close>, written
  below as a case distinction together with the read it guards; an assignment
  \<^verbatim>\<open>df[col] = values\<close> replaces the column of that name where it stands, or
  appends a new one.\<close>

definition get_col :: "frame \<Rightarrow> string \<Rightarrow> py_error + cell list" where
  "get_col df c = (case map_of (columns df) c of None \<Rightarrow> Inl KeyError | Some xs \<Rightarrow> Inr xs)"

fun assign :: "'k \<Rightarrow> 'v \<Rightarrow> ('k \<times> 'v) list \<Rightarrow> ('k \<times> 'v) list" where
  "assign c v [] = [(c, v)]"
| "assign c v ((k, xs) # rest) = (if k = c then (k, v) # rest else (k, xs) # assign c v rest)"

definition set_col :: "frame \<Rightarrow> string \<Rightarrow> cell list \<Rightarrow> frame" where
  "set_col df c v = df\<lparr>columns := assign c v (columns df)\<rparr>"

text \<open>\<^verbatim>\<open>series.fillna(v)\<close>, \<^verbatim>\<open>series.dropna()\<close> and \<^verbatim>\<open>series.apply(f)\<close> for an
  \<open>f\<close> that may raise.\<close>

definition fillna :: "cell \<Rightarrow> cell list \<Rightarrow> cell list" where
  "fillna v xs = map (\<lambda>c. if isna c then v else c) xs"

definition dropna :: "cell list \<Rightarrow> cell list" where
  "dropna xs = filter (\<lambda>c. \<not> isna c) xs"

text \<open>
  \<^verbatim>\<open>series.str\<close>: the accessor accepts a column of texts, also an empty one, and
  raises \<^verbatim>\<open>AttributeError\<close> on a column of numbers, that is, on a column that has
  rows and no text among them. Where it accepts the column, \<^verbatim>\<open>.str.strip()\<close> trims
  the texts and leaves a cell that is not a text missing.
\<close>

definition is_text :: "cell \<Rightarrow> bool" where
  "is_text c = (case c of Str s \<Rightarrow> True | _ \<Rightarrow> False)"

definition str_ok :: "cell list \<Rightarrow> bool" where
  "str_ok xs = (xs = [] \<or> list_ex is_text xs)"

definition strip_cells :: "cell list \<Rightarrow> cell list" where
  "strip_cells xs = map (\<lambda>c. case c of Str s \<Rightarrow> Str (py_strip s) | _ \<Rightarrow> NaN) xs"

definition str_strip :: "cell list \<Rightarrow> py_error + cell list" where
  "str_strip xs = (if str_ok xs then Inr (strip_cells xs) else Inl AttributeError)"

fun apply_each :: "('a \<Rightarrow> py_error + 'b) \<Rightarrow> 'a list \<Rightarrow> py_error + 'b list" where
  "apply_each f [] = Inr []"
| "apply_each f (x # xs) =
     (case f x of
        Inl e \<Rightarrow> Inl e
      | Inr y \<Rightarrow> (case apply_each f xs of Inl e \<Rightarrow> Inl e | Inr ys \<Rightarrow> Inr (y # ys)))"

text \<open>\<^verbatim>\<open>xs[0]\<close> raises \<^verbatim>\<open>IndexError\<close> on the empty list.\<close>

definition first_item :: "'a list \<Rightarrow> py_error + 'a" where
  "first_item xs = (case xs of [] \<Rightarrow> Inl IndexError | x # _ \<Rightarrow> Inr x)"

section \<open>The cleaning step\<close>

text \<open>
  \<^verbatim>\<open>clean_data\<close> works on a copy of the table. \<^verbatim>\<open>pd.to_datetime(col, errors="coerce")\<close>
  is library code: it is the parameter \<open>to_datetime\<close>, from a column to its parsed
  dates, \<open>None\<close> where a value is missing or cannot be parsed.
\<close>

type_synonym date_parser = "cell list \<Rightarrow> (int \<times> nat \<times> nat) option list"

definition date_cell :: "(int \<times> nat \<times> nat) option \<Rightarrow> cell" where
  "date_cell d = (case d of None \<Rightarrow> NaN | Some (y, m, dd) \<Rightarrow> Date y m dd)"

text \<open>\<^verbatim>\<open>series.dt.year\<close>\<close>

definition dt_year :: "cell list \<Rightarrow> cell list" where
  "dt_year xs = map (\<lambda>c. case c of Date y m d \<Rightarrow> Num y | _ \<Rightarrow> NaN) xs"

definition strip_columns :: "frame \<Rightarrow> frame" where
  "strip_columns df = df\<lparr>columns := map (\<lambda>(c, xs). (py_strip c, xs)) (columns df)\<rparr>"

definition parse_dates :: "date_parser \<Rightarrow> frame \<Rightarrow> frame" where
  "parse_dates to_datetime df =
     (case map_of (columns df) ''date_added'' of
        Some xs \<Rightarrow>
          (let df1 = set_col df ''date_added'' (map date_cell (to_datetime xs)) in
           (case map_of (columns df1) ''date_added'' of
              Some ds \<Rightarrow> set_col df1 ''year_added'' (dt_year ds)
            | None \<Rightarrow> df1))
      | None \<Rightarrow> set_col df ''year_added'' (replicate (nrows df) NaN))"

definition fill_column :: "string \<Rightarrow> frame \<Rightarrow> frame" where
  "fill_column col df =
     (case map_of (columns df) col of
        Some xs \<Rightarrow> set_col df col (fillna (Str ''Unknown'') xs)
      | None \<Rightarrow> df)"

definition fill_unknown :: "frame \<Rightarrow> frame" where
  "fill_unknown df = fold fill_column [''director'', ''cast'', ''country'', ''rating''] df"

definition normalize_type :: "frame \<Rightarrow> py_error + frame" where
  "normalize_type df =
     (case map_of (columns df) ''type'' of
        Some xs \<Rightarrow>
          (case str_strip xs of
             Inl e \<Rightarrow> Inl e
           | Inr ys \<Rightarrow> Inr (set_col df ''type'' ys))
      | None \<Rightarrow> Inr df)"

definition genres_of :: "cell \<Rightarrow> cell" where
  "genres_of x = Lst (map py_strip (split_on CHR '','' (py_str x)))"

definition split_genres :: "frame \<Rightarrow> frame" where
  "split_genres df =
     (case map_of (columns df) ''listed_in'' of
        Some xs \<Rightarrow>
          (let df1 = set_col df ''listed_in'' (fillna (Str ''Unknown'') xs) in
           (case map_of (columns df1) ''listed_in'' of
              Some ys \<Rightarrow> set_col df1 ''genres_list'' (map genres_of ys)
            | None \<Rightarrow> df1))
      | None \<Rightarrow> set_col df ''genres_list'' (replicate (nrows df) (Lst [])))"

text \<open>\<^verbatim>\<open>parse_duration\<close>: the body of the \<^verbatim>\<open>try\<close> block, then the function with
  its \<^verbatim>\<open>except Exception\<close>.\<close>

definition leading_int :: "string \<Rightarrow> py_error + int" where
  "leading_int s =
     (case first_item (split_ws s) of
        Inl e \<Rightarrow> Inl e
      | Inr t \<Rightarrow> py_int t)"

definition parse_duration_try :: "string \<Rightarrow> py_error + int" where
  "parse_duration_try s =
     (if contains ''min'' s then leading_int s
      else leading_int s)"

definition parse_duration :: "cell \<Rightarrow> py_error + cell" where
  "parse_duration x =
     (if isna x then Inr NaN
      else (let s = py_strip (py_str x) in
            (case parse_duration_try s of
               Inl e \<Rightarrow> Inr NaN
             | Inr n \<Rightarrow> Inr (Num n))))"

definition add_duration :: "frame \<Rightarrow> py_error + frame" where
  "add_duration df =
     (case map_of (columns df) ''duration'' of
        Some xs \<Rightarrow>
          (case apply_each parse_duration xs of
             Inl e \<Rightarrow> Inl e
           | Inr ds \<Rightarrow> Inr (set_col df ''duration_parsed'' ds))
      | None \<Rightarrow> Inr (set_col df ''duration_parsed'' (replicate (nrows df) NaN)))"

definition primary_country_of :: "cell \<Rightarrow> py_error + cell" where
  "primary_country_of x =
     (if \<not> isna x \<and> x \<noteq> Str ''Unknown'' then
        (case first_item (split_on CHR '','' (py_str x)) of
           Inl e \<Rightarrow> Inl e
         | Inr t \<Rightarrow> Inr (Str (py_strip t)))
      else Inr (Str ''Unknown''))"

definition add_primary_country :: "frame \<Rightarrow> py_error + frame" where
  "add_primary_country df =
     (case map_of (columns df) ''country'' of
        Some xs \<Rightarrow>
          (case apply_each primary_country_of xs of
             Inl e \<Rightarrow> Inl e
           | Inr ps \<Rightarrow> Inr (set_col df ''primary_country'' ps))
      | None \<Rightarrow> Inr (set_col df ''primary_country'' (replicate (nrows df) (Str ''Unknown''))))"

definition clean_data :: "date_parser \<Rightarrow> frame \<Rightarrow> py_error + frame" where
  "clean_data to_datetime df0 =
     (let df1 = strip_columns df0;
          df2 = parse_dates to_datetime df1;
          df3 = fill_unknown df2
      in (case normalize_type df3 of
            Inl e \<Rightarrow> Inl e
          | Inr df4 \<Rightarrow>
              (let df5 = split_genres df4
               in (case add_duration df5 of
                     Inl e \<Rightarrow> Inl e
                   | Inr df6 \<Rightarrow> add_primary_country df6))))"

text \<open>
  The one place where \<^verbatim>\<open>clean_data\<close> can raise is the \<^verbatim>\<open>.str\<close> accessor on the
  \<open>type\<close> column. \<open>type_readable\<close> says of a loaded table that the accessor accepts
  that column, if there is one; \<open>type_stripped\<close> is the table after the assignment
  \<^verbatim>\<open>df["type"] = df["type"].str.strip()\<close> has gone through.
\<close>

definition type_readable :: "frame \<Rightarrow> bool" where
  "type_readable df =
     (case map_of (columns (strip_columns df)) ''type'' of
        Some xs \<Rightarrow> str_ok xs
      | None \<Rightarrow> True)"

definition type_stripped :: "frame \<Rightarrow> frame" where
  "type_stripped df =
     (case map_of (columns df) ''type'' of
        Some xs \<Rightarrow> set_col df ''type'' (strip_cells xs)
      | None \<Rightarrow> df)"

section \<open>Counting\<close>

text \<open>
  A \<^verbatim>\<open>Counter\<close> keeps its keys in the order of first insertion;
  \<^verbatim>\<open>c[k] += 1\<close> is \<open>bump\<close>. \<^verbatim>\<open>most_common(n)\<close> sorts by count, largest
  first, keeping the insertion order among equal counts. \<^verbatim>\<open>value_counts()\<close> of a
  series without missing values is modelled the same way (pandas leaves the order
  among equal counts to its sort; first occurrence is taken here), and
  \<^verbatim>\<open>sort_index()\<close> orders a tally by its keys.
\<close>

fun bump :: "'a \<Rightarrow> ('a \<times> nat) list \<Rightarrow> ('a \<times> nat) list" where
  "bump k [] = [(k, 1)]"
| "bump k ((k', n) # rest) = (if k' = k then (k', n + 1) # rest else (k', n) # bump k rest)"

definition count_items :: "'a list \<Rightarrow> ('a \<times> nat) list" where
  "count_items xs = fold bump xs []"

definition by_count_desc :: "('a \<times> nat) list \<Rightarrow> ('a \<times> nat) list" where
  "by_count_desc kvs = sort_key (\<lambda>kv. - int (snd kv)) kvs"

definition most_common :: "nat \<Rightarrow> ('a \<times> nat) list \<Rightarrow> ('a \<times> nat) list" where
  "most_common n kvs = take n (by_count_desc kvs)"

definition value_counts :: "'a list \<Rightarrow> ('a \<times> nat) list" where
  "value_counts xs = by_count_desc (count_items xs)"

definition sort_index :: "(int \<times> nat) list \<Rightarrow> (int \<times> nat) list" where
  "sort_index kvs = sort_key fst kvs"

text \<open>\<^verbatim>\<open>series.astype(int)\<close>, cell by cell, and the iteration \<^verbatim>\<open>for g in gl\<close> over a
  cell: a list gives its items, a text its characters, anything else is not iterable.\<close>

definition as_int :: "cell \<Rightarrow> py_error + int" where
  "as_int c = (case c of Num n \<Rightarrow> Inr n | Str s \<Rightarrow> py_int s | _ \<Rightarrow> Inl TypeError)"

definition iter_cell :: "cell \<Rightarrow> py_error + string list" where
  "iter_cell c =
     (case c of
        Lst xs \<Rightarrow> Inr xs
      | Str s \<Rightarrow> Inr (map (\<lambda>ch. [ch]) s)
      | _ \<Rightarrow> Inl TypeError)"

section \<open>The renderers\<close>

text \<open>
  What a run does to the outside is a list of events: a directory made, a line
  printed, a figure saved under a path with the data handed to the plotting call, the
  summary table written. Paths are relative to the directory of the script. The
  plotting library itself is not modelled. A renderer returns its events, or the
  exception it raises; every renderer of the script raises, if at all, before its
  first event.
\<close>

datatype chart =
    Countplot "cell list" "cell list option"
  | Barplot "nat list" "cell list"
  | Lineplot "(int \<times> nat) list"
  | Histplot "cell list"

datatype event =
    MakeDirs string
  | Print string
  | SaveFig string chart
  | WriteCsv string "(cell \<times> cell) list"

definition saved :: "string \<Rightarrow> chart \<Rightarrow> event list" where
  "saved path ch = [SaveFig path ch, Print (''Saved '' @ path)]"

definition plot_movies_vs_tv :: "frame \<Rightarrow> py_error + event list" where
  "plot_movies_vs_tv df =
     (case get_col df ''type'' of
        Inl e \<Rightarrow> Inl e
      | Inr xs \<Rightarrow>
          (let order = map fst (value_counts (dropna xs))
           in Inr (saved ''plots/movies_vs_tv.png'' (Countplot xs (Some order)))))"

definition all_genres :: "string list list \<Rightarrow> (string \<times> nat) list" where
  "all_genres gls = fold (\<lambda>gl acc. fold bump gl acc) gls []"

definition plot_top_genres :: "frame \<Rightarrow> nat \<Rightarrow> py_error + event list" where
  "plot_top_genres df top_n =
     (case get_col df ''genres_list'' of
        Inl e \<Rightarrow> Inl e
      | Inr col \<Rightarrow>
          (case apply_each iter_cell col of
             Inl e \<Rightarrow> Inl e
           | Inr gls \<Rightarrow>
               (let top_g = most_common top_n (all_genres gls) in
                if top_g = [] then Inl ValueError
                else Inr (saved ''plots/top_genres.png''
                            (Barplot (map snd top_g) (map (Str \<circ> fst) top_g))))))"

definition yearly_series :: "cell list \<Rightarrow> py_error + (int \<times> nat) list" where
  "yearly_series col =
     (case apply_each as_int (dropna col) of
        Inl e \<Rightarrow> Inl e
      | Inr ys \<Rightarrow> Inr (sort_index (value_counts ys)))"

definition plot_yearly_trend :: "frame \<Rightarrow> py_error + event list" where
  "plot_yearly_trend df =
     (case map_of (columns df) ''year_added'' of
        None \<Rightarrow> Inr [Print ''No year_added information available to plot yearly trend.'']
      | Some col \<Rightarrow>
          if list_all isna col
          then Inr [Print ''No year_added information available to plot yearly trend.'']
          else (case yearly_series col of
                  Inl e \<Rightarrow> Inl e
                | Inr series \<Rightarrow> Inr (saved ''plots/content_added_per_year.png'' (Lineplot series))))"

definition plot_top_countries :: "frame \<Rightarrow> nat \<Rightarrow> py_error + event list" where
  "plot_top_countries df top_n =
     (case get_col df ''primary_country'' of
        Inl e \<Rightarrow> Inl e
      | Inr xs \<Rightarrow>
          (let counts = take top_n (value_counts (dropna xs))
           in Inr (saved ''plots/top_countries.png'' (Barplot (map snd counts) (map fst counts)))))"

definition plot_rating_distribution :: "frame \<Rightarrow> nat \<Rightarrow> py_error + event list" where
  "plot_rating_distribution df top_n =
     (case map_of (columns df) ''rating'' of
        None \<Rightarrow> Inr [Print ''No rating column present'']
      | Some xs \<Rightarrow>
          (let counts = take top_n (value_counts (dropna xs))
           in Inr (saved ''plots/rating_distribution.png'' (Barplot (map snd counts) (map fst counts)))))"

text \<open>\<^verbatim>\<open>df[mask]\<close> keeps the rows whose mask is true; \<^verbatim>\<open>df.empty\<close> holds when
  there is no row or no column; \<^verbatim>\<open>series.str.lower() == v\<close> goes through the
  \<^verbatim>\<open>.str\<close> accessor and is false on a cell that is not text.\<close>

definition filter_rows :: "bool list \<Rightarrow> frame \<Rightarrow> frame" where
  "filter_rows keep df =
     \<lparr>nrows = length (filter id keep),
      columns = map (\<lambda>(c, xs). (c, map fst (filter snd (zip xs keep)))) (columns df)\<rparr>"

definition frame_empty :: "frame \<Rightarrow> bool" where
  "frame_empty df = (nrows df = 0 \<or> columns df = [])"

definition lower_is :: "string \<Rightarrow> cell \<Rightarrow> bool" where
  "lower_is v c = (case c of Str s \<Rightarrow> py_lower s = v | _ \<Rightarrow> False)"

definition str_lower_is :: "string \<Rightarrow> cell list \<Rightarrow> py_error + bool list" where
  "str_lower_is v xs = (if str_ok xs then Inr (map (lower_is v) xs) else Inl AttributeError)"

definition duration_part :: "frame \<Rightarrow> string \<Rightarrow> (cell list \<Rightarrow> chart) \<Rightarrow> event list" where
  "duration_part sub path mk =
     (if \<not> frame_empty sub then
        (case map_of (columns sub) ''duration_parsed'' of
           None \<Rightarrow> []
         | Some col \<Rightarrow> (let m = dropna col in if m \<noteq> [] then saved path (mk m) else []))
      else [])"

definition duration_insights :: "frame \<Rightarrow> py_error + event list" where
  "duration_insights df =
     (case (case map_of (columns df) ''type'' of
              Some ts \<Rightarrow>
                (case str_lower_is ''movie'' ts of
                   Inl e \<Rightarrow> Inl e
                 | Inr keep \<Rightarrow> Inr (filter_rows keep df))
            | None \<Rightarrow> Inr df) of
        Inl e \<Rightarrow> Inl e
      | Inr movies \<Rightarrow>
          (case (case map_of (columns df) ''type'' of
                   Some ts \<Rightarrow>
                     (case str_lower_is ''tv show'' ts of
                        Inl e \<Rightarrow> Inl e
                      | Inr keep \<Rightarrow> Inr (filter_rows keep df))
                 | None \<Rightarrow> Inr \<lparr>nrows = 0, columns = []\<rparr>) of
             Inl e \<Rightarrow> Inl e
           | Inr shows \<Rightarrow>
               Inr (duration_part movies ''plots/movie_duration_distribution.png'' Histplot @
                    duration_part shows ''plots/show_seasons_count.png'' (\<lambda>s. Countplot s None))))"

text \<open>The two people tallies. \<open>actor_counter\<close> is the loop over the cast texts.\<close>

definition director_series :: "cell list \<Rightarrow> string list" where
  "director_series col = filter (\<lambda>d. d \<noteq> ''Unknown'') (map py_str (dropna col))"

definition actor_counter :: "string list \<Rightarrow> (string \<times> nat) list" where
  "actor_counter casts =
     fold (\<lambda>c acc.
             fold (\<lambda>actor acc'. if actor \<noteq> [] then bump actor acc' else acc')
               (take 5 (map py_strip (split_on CHR '','' c))) acc)
       casts []"

definition directors_part :: "cell list \<Rightarrow> nat \<Rightarrow> event list" where
  "directors_part col top_n =
     (let directors = director_series col in
      if directors \<noteq> [] then
        (let dir_counts = take top_n (value_counts directors)
         in saved ''plots/top_directors.png''
              (Barplot (map snd dir_counts) (map (Str \<circ> fst) dir_counts)))
      else [])"

definition actors_part :: "frame \<Rightarrow> nat \<Rightarrow> event list" where
  "actors_part df top_n =
     (case map_of (columns df) ''cast'' of
        None \<Rightarrow> []
      | Some col \<Rightarrow>
          (let top_actors = most_common top_n (actor_counter (map py_str (dropna col))) in
           if top_actors \<noteq> [] then
             saved ''plots/top_actors.png''
               (Barplot (map snd top_actors) (map (Str \<circ> fst) top_actors))
           else []))"

definition top_directors_actors :: "frame \<Rightarrow> nat \<Rightarrow> py_error + event list" where
  "top_directors_actors df top_n =
     (case get_col df ''director'' of
        Inl e \<Rightarrow> Inl e
      | Inr col \<Rightarrow> Inr (directors_part col top_n @ actors_part df top_n))"

section \<open>The summary\<close>

text \<open>The summary is a dictionary in insertion order; an assignment to a key already
  there keeps its place.\<close>

definition year_range :: "cell list \<Rightarrow> py_error + (cell \<times> cell)" where
  "year_range col =
     (case apply_each as_int (dropna col) of
        Inl e \<Rightarrow> Inl e
      | Inr [] \<Rightarrow> Inr (NaN, NaN)
      | Inr (y # ys) \<Rightarrow> Inr (Num (fold min ys y), Num (fold max ys y)))"

definition idxmax :: "('a \<times> nat) list \<Rightarrow> py_error + 'a" where
  "idxmax counts = (case counts of [] \<Rightarrow> Inl ValueError | (k, n) # rest \<Rightarrow> Inr k)"

definition summary_of :: "frame \<Rightarrow> py_error + (cell \<times> cell) list" where
  "summary_of df =
     (let s1 = assign (Str ''total_titles'') (Num (int (nrows df))) [];
          s2 = (case map_of (columns df) ''type'' of
                  Some ts \<Rightarrow> fold (\<lambda>kv acc. assign (fst kv) (Num (int (snd kv))) acc)
                               (value_counts (dropna ts)) s1
                | None \<Rightarrow> s1)
      in (case (case map_of (columns df) ''year_added'' of
                  Some col \<Rightarrow>
                    (case year_range col of
                       Inl e \<Rightarrow> Inl e
                     | Inr r \<Rightarrow> Inr (assign (Str ''latest_year_added'') (snd r)
                                    (assign (Str ''earliest_year_added'') (fst r) s2)))
                | None \<Rightarrow> Inr s2) of
            Inl e \<Rightarrow> Inl e
          | Inr s3 \<Rightarrow>
              (case get_col df ''primary_country'' of
                 Inl e \<Rightarrow> Inl e
               | Inr pcs \<Rightarrow>
                   (case (if pcs \<noteq> [] then idxmax (value_counts (dropna pcs))
                          else Inr (Str ''Unknown'')) of
                      Inl e \<Rightarrow> Inl e
                    | Inr tc \<Rightarrow> Inr (assign (Str ''top_country'') tc s3)))))"

definition save_summary :: "frame \<Rightarrow> py_error + event list" where
  "save_summary df =
     (case summary_of df of
        Inl e \<Rightarrow> Inl e
      | Inr summary \<Rightarrow>
          Inr [WriteCsv ''output/summary_stats.csv'' summary,
               Print ''Saved summary to output/summary_stats.csv''])"

section \<open>The run\<close>

text \<open>
  The file system is a partial map from paths to the table \<^verbatim>\<open>pd.read_csv\<close> reads
  there; \<open>None\<close> is a path where nothing exists. A run ends completed, by
  \<^verbatim>\<open>sys.exit\<close> with a status, or with an exception nobody catches.
\<close>

record args =
  csv :: string
  top_genres :: nat
  top_countries :: nat
  top_people :: nat

datatype status = Completed | Exited nat | Uncaught py_error

definition ensure_dirs :: "event list" where
  "ensure_dirs = [MakeDirs ''plots'', MakeDirs ''output'']"

definition read_data :: "(string \<Rightarrow> frame option) \<Rightarrow> string \<Rightarrow> event list \<times> (nat + frame)" where
  "read_data fs csv_path =
     (case fs csv_path of
        None \<Rightarrow> ([Print (''ERROR: CSV file not found at '' @ csv_path)], Inl 1)
      | Some df \<Rightarrow> ([], Inr df))"

fun run_steps :: "(frame \<Rightarrow> py_error + event list) list \<Rightarrow> frame \<Rightarrow> event list \<Rightarrow> event list \<times> status" where
  "run_steps [] df evs = (evs, Completed)"
| "run_steps (f # fs) df evs =
     (case f df of
        Inl e \<Rightarrow> (evs, Uncaught e)
      | Inr es \<Rightarrow> run_steps fs df (evs @ es))"

definition main :: "(string \<Rightarrow> frame option) \<Rightarrow> date_parser \<Rightarrow> args \<Rightarrow> event list \<times> status" where
  "main fs to_datetime a =
     (case read_data fs (csv a) of
        (msgs, Inl code) \<Rightarrow> (ensure_dirs @ msgs, Exited code)
      | (msgs, Inr df0) \<Rightarrow>
          (case clean_data to_datetime df0 of
             Inl e \<Rightarrow> (ensure_dirs @ msgs, Uncaught e)
           | Inr df \<Rightarrow>
               (case run_steps
                       [plot_movies_vs_tv,
                        (\<lambda>d. plot_top_genres d (top_genres a)),
                        plot_yearly_trend,
                        (\<lambda>d. plot_top_countries d (top_countries a)),
                        (\<lambda>d. plot_rating_distribution d 20),
                        duration_insights,
                        (\<lambda>d. top_directors_actors d (top_people a)),
                        save_summary]
                       df (ensure_dirs @ msgs) of
                  (evs, Completed) \<Rightarrow>
                    (evs @ [Print ''All done. Plots are in the ./plots directory and summary in ./output.''],
                     Completed)
                | (evs, st) \<Rightarrow> (evs, st))))"

text \<open>A date parser for the examples: ISO dates \<^verbatim>\<open>YYYY-MM-DD\<close>, which
  \<^verbatim>\<open>pd.to_datetime\<close> reads as such.\<close>

definition iso_date :: "cell \<Rightarrow> (int \<times> nat \<times> nat) option" where
  "iso_date c =
     (case c of
        Str s \<Rightarrow>
          (case map (digits 0 False) (split_on CHR ''-'' s) of
             [Some y, Some m, Some d] \<Rightarrow>
               if 1 \<le> m \<and> m \<le> 12 \<and> 1 \<le> d \<and> d \<le> 31 then Some (int y, m, d) else None
           | _ \<Rightarrow> None)
      | _ \<Rightarrow> None)"

definition iso_dates :: date_parser where
  "iso_dates xs = map iso_date xs"


section \<open>Predicates of the specification\<close>

text \<open>An artifact is a file written by the run: a figure or the summary table.\<close>

definition is_artifact :: "event \<Rightarrow> bool" where
  "is_artifact e = (case e of SaveFig path ch \<Rightarrow> True | WriteCsv path rows \<Rightarrow> True | _ \<Rightarrow> False)"

text \<open>
  The frame condition of the cleaning step, as the specification words it: the named
  normalisations of an original column, by its trimmed name, and a cleaned table that
  has the rows of the original, every original column under its trimmed name with its
  named normalisation and nothing else changed, and the four derived columns added
  after them. Being trimmed is said without the trimming function: \<open>t\<close> is \<open>s\<close>
  without the whitespace at its two ends.
\<close>

definition trimmed_of :: "string \<Rightarrow> string \<Rightarrow> bool" where
  "trimmed_of s t =
     (\<exists>a b. s = a @ t @ b \<and> list_all is_space a \<and> list_all is_space b \<and>
        (t = [] \<or> (\<not> is_space (hd t) \<and> \<not> is_space (last t))))"

definition derived_names :: "string list" where
  "derived_names = [''year_added'', ''genres_list'', ''duration_parsed'', ''primary_country'']"

definition named_normalization :: "date_parser \<Rightarrow> string \<Rightarrow> cell list \<Rightarrow> cell list" where
  "named_normalization to_datetime k xs =
     (if k = ''date_added'' then map date_cell (to_datetime xs)
      else if k \<in> set [''director'', ''cast'', ''country'', ''rating'', ''listed_in'']
        then fillna (Str ''Unknown'') xs
      else if k = ''type'' then strip_cells xs
      else xs)"

definition only_adds_derived :: "date_parser \<Rightarrow> frame \<Rightarrow> frame \<Rightarrow> bool" where
  "only_adds_derived to_datetime df df' =
     (nrows df' = nrows df \<and>
      rectangular df' \<and>
      list_all (\<lambda>(c, xs). get_col df' (py_strip c) =
                  Inr (named_normalization to_datetime (py_strip c) xs)) (columns df) \<and>
      map fst (columns df') = map (py_strip \<circ> fst) (columns df) @ derived_names)"

section \<open>Example tables\<close>

definition two_titles :: frame where
  "two_titles =
     \<lparr>nrows = 2,
      columns =
        [(''type'', [Str ''Movie'', Str ''TV Show'']),
         (''director'', [Str ''Ann Lee'', NaN]),
         (''cast'', [Str ''Al, Bo, Cy, Di, Ed, Flo, Gus, Hal'', NaN]),
         (''country'', [Str ''Canada, United States'', NaN]),
         (''listed_in'', [Str ''Dramas, International Movies'', NaN]),
         (''date_added'', [Str ''2020-01-15'', Str ''2021-03-02'']),
         (''duration'', [Str ''90 min'', Str ''2 Seasons''])]\<rparr>"

definition titles_only :: frame where
  "titles_only = \<lparr>nrows = 1, columns = [(''title'', [Str ''Only a title''])]\<rparr>"

definition two_dates :: frame where
  "two_dates = \<lparr>nrows = 2, columns = [(''date_added'', [Str ''2020-01-15'', Str ''2021-03-02''])]\<rparr>"

definition country_given :: frame where
  "country_given =
     \<lparr>nrows = 1,
      columns = [(''title'', [Str ''Only a title'']), (''primary_country'', [Str ''Narnia''])]\<rparr>"

definition spaced_countries :: frame where
  "spaced_countries =
     \<lparr>nrows = 3,
      columns =
        [(''release_year'', [Num 2019, Num 2020, Num 2021]),
         ('' country '', [Str ''  United States , Canada'', Str ''Unknown'', NaN])]\<rparr>"

definition type_all_missing :: frame where
  "type_all_missing =
     \<lparr>nrows = 2,
      columns = [(''title'', [Str ''One'', Str ''Two'']), (''type'', [NaN, NaN])]\<rparr>"

definition one_file :: "string \<Rightarrow> frame option" where
  "one_file p = (if p = ''here.csv'' then Some two_titles else None)"

definition default_args :: "string \<Rightarrow> args" where
  "default_args path = \<lparr>csv = path, top_genres = 12, top_countries = 10, top_people = 10\<rparr>"

section \<open>Properties of the string functions\<close>

lemma tokens_snoc_space: "is_space c \<Longrightarrow> tokens cur (s @ [c]) = tokens cur s"
  by (induction s arbitrary: cur) auto

lemma tokens_dropWhile: "tokens [] (dropWhile is_space s) = tokens [] s"
  by (induction s) auto

lemma tokens_rev_dropWhile: "tokens cur (rev (dropWhile is_space (rev s))) = tokens cur s"
proof (induction s rule: rev_induct)
  case Nil
  show ?case by simp
next
  case (snoc x xs)
  then show ?case by (auto simp: tokens_snoc_space)
qed

lemma split_ws_strip: "split_ws (py_strip s) = split_ws s"
  unfolding py_strip_def split_ws_def by (simp add: tokens_rev_dropWhile tokens_dropWhile)

lemma split_on_nonempty: "split_on c s \<noteq> []"
  by (induction s) (auto split: list.splits)

lemma hd_split_on: "hd (split_on c s) = takeWhile (\<lambda>x. x \<noteq> c) s"
  by (induction s) (auto split: list.splits simp: split_on_nonempty)

lemma py_strip_trimmed: "trimmed_of s (py_strip s)"
proof -
  let ?u = "dropWhile is_space s"
  let ?m = "dropWhile is_space (rev ?u)"
  let ?a = "takeWhile is_space s"
  let ?b = "rev (takeWhile is_space (rev ?u))"
  have t: "py_strip s = rev ?m" by (simp add: py_strip_def)
  have "rev (rev ?m @ ?b) = rev ?u" by simp
  then have "rev ?m @ ?b = ?u" by (simp only: rev_is_rev_conv)
  then have u: "?u = rev ?m @ ?b" by (rule sym)
  have "s = ?a @ ?u" by simp
  then have s: "s = ?a @ rev ?m @ ?b" using u by simp
  have a: "list_all is_space ?a" by (auto simp: list_all_iff dest: set_takeWhileD)
  have b: "list_all is_space ?b" by (auto simp: list_all_iff dest: set_takeWhileD)
  have e: "\<not> is_space (hd (rev ?m)) \<and> \<not> is_space (last (rev ?m))" if m: "?m \<noteq> []"
  proof -
    have 1: "\<not> is_space (hd ?m)" using m by (rule hd_dropWhile)
    have un: "?u \<noteq> []"
    proof
      assume "?u = []"
      then have "dropWhile is_space (rev ?u) = dropWhile is_space (rev [])"
        by (rule arg_cong [of _ _ "\<lambda>z. dropWhile is_space (rev z)"])
      then have "?m = []" by (simp only: rev.simps dropWhile.simps)
      with m show False by (rule notE)
    qed
    then have 2: "\<not> is_space (hd ?u)" by (rule hd_dropWhile)
    have "last (rev ?u) = last (takeWhile is_space (rev ?u) @ ?m)" by simp
    also have "\<dots> = last ?m" using m by (rule last_appendR)
    finally have "last ?m = hd ?u" using un by (simp add: last_rev)
    then show ?thesis using 1 2 m by (simp add: hd_rev last_rev)
  qed
  show ?thesis
    unfolding trimmed_of_def t
  proof (intro exI conjI)
    show "s = ?a @ rev ?m @ ?b" by (rule s)
    show "list_all is_space ?a" by (rule a)
    show "list_all is_space ?b" by (rule b)
    show "rev ?m = [] \<or> (\<not> is_space (hd (rev ?m)) \<and> \<not> is_space (last (rev ?m)))"
      using e by auto
  qed
qed

section \<open>Duration parsing\<close>

lemma parse_duration_token:
  assumes "split_ws s = t # ts"
  shows "parse_duration (Str s) = (case py_int t of Inl e \<Rightarrow> Inr NaN | Inr n \<Rightarrow> Inr (Num n))"
proof -
  have "leading_int (py_strip s) = py_int t"
    by (simp add: leading_int_def first_item_def split_ws_strip assms)
  then show ?thesis
    by (simp add: parse_duration_def parse_duration_try_def isna_def)
qed

text \<open>
  C2. For a duration text \<open>s\<close> whose first whitespace-separated token \<open>t\<close> reads as
  the integer \<open>n\<close>, \<open>parse_duration\<close> returns \<open>n\<close>, when \<open>s\<close> contains
  \<open>min\<close> (minutes) and when it does not (seasons). When the first token does not
  read as an integer, when there is no token at all (empty or blank text) and when
  the value is missing, the result is the missing marker. No value makes
  \<open>parse_duration\<close> raise.
\<close>

theorem parse_duration_spec:
  "(split_ws s = t # ts \<and> py_int t = Inr n \<and> contains ''min'' s
      \<longrightarrow> parse_duration (Str s) = Inr (Num n)) \<and>
   (split_ws s = t # ts \<and> py_int t = Inr n \<and> \<not> contains ''min'' s
      \<longrightarrow> parse_duration (Str s) = Inr (Num n)) \<and>
   (split_ws s = t # ts \<and> py_int t = Inl e \<longrightarrow> parse_duration (Str s) = Inr NaN) \<and>
   (split_ws s = [] \<longrightarrow> parse_duration (Str s) = Inr NaN) \<and>
   parse_duration NaN = Inr NaN \<and>
   (\<exists>v. parse_duration x = Inr v)"
  by (auto simp: parse_duration_def parse_duration_try_def leading_int_def first_item_def
        isna_def split_ws_strip Let_def split: sum.splits)

theorem parse_duration_spec_witness:
  "split_ws ''90 min'' = [''90'', ''min''] \<and> py_int ''90'' = Inr 90 \<and>
   contains ''min'' ''90 min'' \<and> parse_duration (Str ''90 min'') = Inr (Num 90) \<and>
   split_ws ''2 Seasons'' = [''2'', ''Seasons''] \<and> py_int ''2'' = Inr 2 \<and>
   \<not> contains ''min'' ''2 Seasons'' \<and> parse_duration (Str ''2 Seasons'') = Inr (Num 2) \<and>
   split_ws ''Season'' = [''Season''] \<and> py_int ''Season'' = Inl ValueError \<and>
   parse_duration (Str ''Season'') = Inr NaN \<and>
   split_ws [] = [] \<and> parse_duration (Str []) = Inr NaN \<and>
   parse_duration NaN = Inr NaN"
proof -
  have a: "split_ws ''90 min'' = [''90'', ''min'']" "split_ws ''2 Seasons'' = [''2'', ''Seasons'']"
    "split_ws ''Season'' = [''Season'']" "split_ws [] = []"
    by (simp_all add: split_ws_def is_space_def)
  have b: "py_int ''90'' = Inr 90" "py_int ''2'' = Inr 2" "py_int ''Season'' = Inl ValueError"
    by (simp_all add: py_int_def py_strip_def is_space_def is_digit_def digit_val_def)
  have c: "contains ''min'' ''90 min''" "\<not> contains ''min'' ''2 Seasons''"
    by simp_all
  have "parse_duration (Str ''90 min'') = Inr (Num 90)"
    using parse_duration_spec [where s = "''90 min''" and t = "''90''" and ts = "[''min'']" and n = 90]
      a b c by blast
  moreover have "parse_duration (Str ''2 Seasons'') = Inr (Num 2)"
    using parse_duration_spec [where s = "''2 Seasons''" and t = "''2''" and ts = "[''Seasons'']" and n = 2]
      a b c by blast
  moreover have "parse_duration (Str ''Season'') = Inr NaN"
    using parse_duration_spec [where s = "''Season''" and t = "''Season''" and ts = "[]" and e = ValueError]
      a b by blast
  moreover have "parse_duration (Str []) = Inr NaN \<and> parse_duration NaN = Inr NaN"
    using parse_duration_spec [where s = "[]"] a by blast
  ultimately show ?thesis using a b c by simp
qed

text \<open>
  C10. When the first whitespace-separated token of a duration text reads as an
  integer, the parsed duration is that integer whether or not the text contains
  \<open>min\<close>: both branches of the parser compute the same value, so any two texts
  with the same first token parse to the same result.
\<close>

theorem duration_unit_irrelevant:
  assumes "split_ws s = t # ts" and "py_int t = Inr n"
  shows "parse_duration (Str s) = Inr (Num n) \<and>
         parse_duration_try (py_strip s) = leading_int (py_strip s) \<and>
         (\<forall>s' ts'. split_ws s' = t # ts' \<longrightarrow> parse_duration (Str s') = parse_duration (Str s))"
proof -
  have 1: "parse_duration (Str s) = Inr (Num n)"
    using parse_duration_token [OF assms(1)] assms(2) by simp
  have 2: "parse_duration_try (py_strip s) = leading_int (py_strip s)"
    by (simp add: parse_duration_try_def)
  have 3: "parse_duration (Str s') = parse_duration (Str s)" if "split_ws s' = t # ts'" for s' ts'
    using parse_duration_token [OF that] parse_duration_token [OF assms(1)] by simp
  from 1 2 3 show ?thesis by blast
qed

theorem duration_unit_irrelevant_witness:
  "split_ws ''3 min'' = [''3'', ''min''] \<and> py_int ''3'' = Inr 3 \<and>
   contains ''min'' ''3 min'' \<and> \<not> contains ''min'' ''3 Seasons'' \<and>
   parse_duration (Str ''3 min'') = Inr (Num 3) \<and>
   parse_duration (Str ''3 Seasons'') = parse_duration (Str ''3 min'')"
proof -
  have a: "split_ws ''3 min'' = [''3'', ''min'']"
    by (simp add: split_ws_def is_space_def)
  have a': "split_ws ''3 Seasons'' = [''3'', ''Seasons'']"
    by (simp add: split_ws_def is_space_def)
  have b: "py_int ''3'' = Inr 3"
    by (simp add: py_int_def py_strip_def is_space_def is_digit_def digit_val_def)
  have c: "contains ''min'' ''3 min''" "\<not> contains ''min'' ''3 Seasons''"
    by simp_all
  note r = duration_unit_irrelevant [OF a b]
  have d: "parse_duration (Str ''3 min'') = Inr (Num 3)"
    using r by (rule conjunct1)
  have "\<forall>s' ts'. split_ws s' = ''3'' # ts' \<longrightarrow> parse_duration (Str s') = parse_duration (Str ''3 min'')"
    using r by (rule_tac conjunct2 [OF conjunct2])
  then have e: "parse_duration (Str ''3 Seasons'') = parse_duration (Str ''3 min'')"
    using a' by blast
  show ?thesis
    by (intro conjI a b c d e)
qed

section \<open>Properties of the table operations\<close>

lemma map_of_assign: "map_of (assign c v kvs) = (map_of kvs)(c \<mapsto> v)"
  by (induction kvs) (auto simp: fun_eq_iff)

lemma names_assign:
  "map fst (assign c v kvs) = (if c \<in> set (map fst kvs) then map fst kvs else map fst kvs @ [c])"
  by (induction kvs) (auto simp: rev_image_eqI)

lemma cols_set_col: "map_of (columns (set_col df c v)) = (map_of (columns df))(c \<mapsto> v)"
  by (simp add: set_col_def map_of_assign)

lemma nrows_set_col: "nrows (set_col df c v) = nrows df"
  by (simp add: set_col_def)

lemma apply_each_map: "(\<And>x. f x = Inr (g x)) \<Longrightarrow> apply_each f xs = Inr (map g xs)"
  by (induction xs) simp_all

lemma parse_duration_Inr: "parse_duration x = Inr (projr (parse_duration x))"
  by (simp add: parse_duration_def Let_def split: sum.splits)

lemma first_split_on: "first_item (split_on c s) = Inr (takeWhile (\<lambda>x. x \<noteq> c) s)"
proof (cases "split_on c s")
  case Nil
  then show ?thesis using split_on_nonempty [of c s] by simp
next
  case (Cons t ts)
  then have "t = takeWhile (\<lambda>x. x \<noteq> c) s" using hd_split_on [of c s] by simp
  then show ?thesis using Cons by (simp add: first_item_def)
qed

lemma primary_country_of_eq:
  "primary_country_of x =
     Inr (Str (if x \<noteq> NaN \<and> x \<noteq> Str ''Unknown''
               then py_strip (takeWhile (\<lambda>c. c \<noteq> CHR '','') (py_str x)) else ''Unknown''))"
  by (simp add: primary_country_of_def first_split_on isna_def)

lemma cols_parse_dates:
  "map_of (columns (parse_dates td df)) =
     (case map_of (columns df) ''date_added'' of
        Some xs \<Rightarrow> (map_of (columns df))(''date_added'' \<mapsto> map date_cell (td xs),
                       ''year_added'' \<mapsto> dt_year (map date_cell (td xs)))
      | None \<Rightarrow> (map_of (columns df))(''year_added'' \<mapsto> replicate (nrows df) NaN))"
  by (simp add: parse_dates_def cols_set_col Let_def split: option.splits)

lemma nrows_parse_dates: "nrows (parse_dates td df) = nrows df"
  by (simp add: parse_dates_def nrows_set_col Let_def cols_set_col split: option.splits)

lemma cols_fill_column:
  "map_of (columns (fill_column c df)) =
     (case map_of (columns df) c of
        Some xs \<Rightarrow> (map_of (columns df))(c \<mapsto> fillna (Str ''Unknown'') xs)
      | None \<Rightarrow> map_of (columns df))"
  by (simp add: fill_column_def cols_set_col split: option.splits)

lemma nrows_fill_column: "nrows (fill_column c df) = nrows df"
  by (simp add: fill_column_def nrows_set_col split: option.splits)

lemma cols_fill_column_other: "k \<noteq> c \<Longrightarrow> map_of (columns (fill_column c df)) k = map_of (columns df) k"
  by (simp add: cols_fill_column split: option.splits)

lemma cols_fill_column_same:
  "map_of (columns (fill_column c df)) c = map_option (fillna (Str ''Unknown'')) (map_of (columns df) c)"
  by (simp add: cols_fill_column split: option.splits)

lemma nrows_fill_unknown: "nrows (fill_unknown df) = nrows df"
  by (simp add: fill_unknown_def nrows_fill_column)

lemma cols_fill_unknown:
  "map_of (columns (fill_unknown df)) k =
     (if k \<in> {''director'', ''cast'', ''country'', ''rating''}
      then map_option (fillna (Str ''Unknown'')) (map_of (columns df) k)
      else map_of (columns df) k)"
proof -
  have d: "k = ''director'' \<or> k = ''cast'' \<or> k = ''country'' \<or> k = ''rating'' \<or>
           k \<notin> {''director'', ''cast'', ''country'', ''rating''}" by blast
  then show ?thesis
    by (elim disjE) (simp_all add: fill_unknown_def cols_fill_column_other cols_fill_column_same)
qed

lemma cols_type_stripped:
  "map_of (columns (type_stripped df)) k =
     (if k = ''type'' then map_option strip_cells (map_of (columns df) k) else map_of (columns df) k)"
  by (simp add: type_stripped_def cols_set_col split: option.splits)

lemma nrows_type_stripped: "nrows (type_stripped df) = nrows df"
  by (simp add: type_stripped_def nrows_set_col split: option.splits)

lemma cols_split_genres:
  "map_of (columns (split_genres df)) =
     (case map_of (columns df) ''listed_in'' of
        Some xs \<Rightarrow> (map_of (columns df))(''listed_in'' \<mapsto> fillna (Str ''Unknown'') xs,
                       ''genres_list'' \<mapsto> map genres_of (fillna (Str ''Unknown'') xs))
      | None \<Rightarrow> (map_of (columns df))(''genres_list'' \<mapsto> replicate (nrows df) (Lst [])))"
  by (simp add: split_genres_def cols_set_col Let_def split: option.splits)

lemma nrows_split_genres: "nrows (split_genres df) = nrows df"
  by (simp add: split_genres_def nrows_set_col Let_def cols_set_col split: option.splits)

lemma add_duration_eq:
  "add_duration df =
     Inr (set_col df ''duration_parsed''
           (case map_of (columns df) ''duration'' of
              Some xs \<Rightarrow> map (\<lambda>x. projr (parse_duration x)) xs
            | None \<Rightarrow> replicate (nrows df) NaN))"
proof -
  have "apply_each parse_duration xs = Inr (map (\<lambda>x. projr (parse_duration x)) xs)" for xs
    by (rule apply_each_map) (rule parse_duration_Inr)
  then show ?thesis by (simp add: add_duration_def split: option.splits)
qed

lemma add_primary_country_eq:
  "add_primary_country df =
     Inr (set_col df ''primary_country''
           (case map_of (columns df) ''country'' of
              Some xs \<Rightarrow> map (\<lambda>x. projr (primary_country_of x)) xs
            | None \<Rightarrow> replicate (nrows df) (Str ''Unknown'')))"
proof -
  have "primary_country_of x = Inr (projr (primary_country_of x))" for x
    by (simp add: primary_country_of_eq)
  then have "apply_each primary_country_of xs = Inr (map (\<lambda>x. projr (primary_country_of x)) xs)" for xs
    by (rule apply_each_map)
  then show ?thesis by (simp add: add_primary_country_def split: option.splits)
qed

section \<open>The cleaning step, column by column\<close>

lemma nrows_strip_columns: "nrows (strip_columns df) = nrows df"
  by (simp add: strip_columns_def)

lemma pre_type:
  "map_of (columns (fill_unknown (parse_dates td df))) ''type'' = map_of (columns df) ''type''"
  by (simp add: cols_fill_unknown cols_parse_dates split: option.splits)

lemma normalize_type_eq:
  "normalize_type df =
     (case map_of (columns df) ''type'' of
        Some xs \<Rightarrow> if str_ok xs then Inr (type_stripped df) else Inl AttributeError
      | None \<Rightarrow> Inr (type_stripped df))"
  by (simp add: normalize_type_def str_strip_def type_stripped_def split: option.splits)

lemma normalize_type_readable:
  "normalize_type (fill_unknown (parse_dates td (strip_columns df))) =
     (if type_readable df
      then Inr (type_stripped (fill_unknown (parse_dates td (strip_columns df))))
      else Inl AttributeError)"
  by (simp add: normalize_type_eq pre_type type_readable_def split: option.splits)

lemma clean_data_raises: "\<not> type_readable df \<Longrightarrow> clean_data td df = Inl AttributeError"
  by (simp add: clean_data_def Let_def normalize_type_readable)

lemma clean_data_readable: "clean_data td df = Inr df' \<Longrightarrow> type_readable df"
  using clean_data_raises [of df td] by (cases "type_readable df") simp_all

lemma clean_data_eq:
  "type_readable df \<Longrightarrow>
   clean_data td df =
     (let df5 = split_genres (type_stripped (fill_unknown (parse_dates td (strip_columns df))));
          df6 = set_col df5 ''duration_parsed''
                  (case map_of (columns df5) ''duration'' of
                     Some xs \<Rightarrow> map (\<lambda>x. projr (parse_duration x)) xs
                   | None \<Rightarrow> replicate (nrows df5) NaN)
      in Inr (set_col df6 ''primary_country''
                (case map_of (columns df6) ''country'' of
                   Some xs \<Rightarrow> map (\<lambda>x. projr (primary_country_of x)) xs
                 | None \<Rightarrow> replicate (nrows df6) (Str ''Unknown''))))"
  by (simp add: clean_data_def normalize_type_readable add_duration_eq add_primary_country_eq Let_def)

lemmas nrows_steps = nrows_set_col nrows_split_genres nrows_type_stripped nrows_fill_unknown
  nrows_parse_dates nrows_strip_columns

lemma clean_data_nrows:
  "type_readable df \<Longrightarrow> \<exists>df'. clean_data td df = Inr df' \<and> nrows df' = nrows df"
  by (simp add: clean_data_eq Let_def nrows_steps)

lemma pre_genres_listed_in:
  "map_of (columns (type_stripped (fill_unknown (parse_dates td df)))) ''listed_in'' =
   map_of (columns df) ''listed_in''"
  by (simp add: cols_type_stripped cols_fill_unknown cols_parse_dates split: option.splits)

lemma clean_genres:
  "type_readable df \<Longrightarrow>
   \<exists>df'. clean_data td df = Inr df' \<and>
     map_of (columns df') ''genres_list'' =
       Some (case map_of (columns (strip_columns df)) ''listed_in'' of
               Some xs \<Rightarrow> map genres_of (fillna (Str ''Unknown'') xs)
             | None \<Rightarrow> replicate (nrows df) (Lst []))"
  by (simp add: clean_data_eq Let_def cols_set_col cols_split_genres pre_genres_listed_in
        nrows_steps split: option.splits)

lemma pre_country:
  "map_of (columns (split_genres (type_stripped (fill_unknown (parse_dates td df))))) ''country'' =
   map_option (fillna (Str ''Unknown'')) (map_of (columns df) ''country'')"
  by (simp add: cols_split_genres cols_type_stripped cols_fill_unknown cols_parse_dates
        split: option.splits)

lemma clean_primary_country:
  "type_readable df \<Longrightarrow>
   \<exists>df'. clean_data td df = Inr df' \<and>
     map_of (columns df') ''primary_country'' =
       Some (case map_of (columns (strip_columns df)) ''country'' of
               Some xs \<Rightarrow> map (\<lambda>x. projr (primary_country_of x)) (fillna (Str ''Unknown'') xs)
             | None \<Rightarrow> replicate (nrows df) (Str ''Unknown''))"
  by (simp add: clean_data_eq Let_def cols_set_col pre_country nrows_steps split: option.splits)

lemma strip_columns_mem:
  assumes "map_of (columns (strip_columns df)) k = Some xs"
  shows "\<exists>c. (c, xs) \<in> set (columns df)"
proof -
  from assms have "(k, xs) \<in> set (columns (strip_columns df))" by (rule map_of_SomeD)
  then show ?thesis by (auto simp: strip_columns_def)
qed

lemma strip_col_length:
  assumes "well_formed df" and "map_of (columns (strip_columns df)) k = Some xs"
  shows "length xs = nrows df"
proof -
  from strip_columns_mem [OF assms(2)] obtain c where "(c, xs) \<in> set (columns df)" by blast
  with assms(1) show ?thesis by (auto simp: well_formed_def rectangular_def list_all_iff)
qed

lemma list_of_two: "length xs = 2 \<Longrightarrow> xs = [xs ! 0, xs ! 1]"
  by (cases xs; cases "tl xs") auto

lemma list_of_one: "length xs = 1 \<Longrightarrow> xs = [xs ! 0]"
  by (cases xs) auto

lemma well_formed_two_titles: "well_formed two_titles"
  by (simp add: well_formed_def rectangular_def two_titles_def py_strip_def is_space_def)

lemma well_formed_titles_only: "well_formed titles_only"
  by (simp add: well_formed_def rectangular_def titles_only_def py_strip_def is_space_def)

lemma strip_columns_two_titles: "strip_columns two_titles = two_titles"
  by (simp add: strip_columns_def two_titles_def py_strip_def is_space_def)

lemma strip_columns_titles_only: "strip_columns titles_only = titles_only"
  by (simp add: strip_columns_def titles_only_def py_strip_def is_space_def)

lemma type_readable_two_titles: "type_readable two_titles"
  by (simp add: type_readable_def strip_columns_two_titles)
     (simp add: two_titles_def str_ok_def is_text_def)

lemma type_readable_titles_only: "type_readable titles_only"
  by (simp add: type_readable_def strip_columns_titles_only) (simp add: titles_only_def)

text \<open>
  Cleaning raises on a table whose \<open>type\<close> column has rows and no text, as on the
  table with an all-missing \<open>type\<close>; the theorems below are about the tables on which
  it returns.
\<close>

lemma type_all_missing_raises:
  "well_formed type_all_missing \<and> \<not> type_readable type_all_missing \<and>
   clean_data iso_dates type_all_missing = Inl AttributeError"
proof -
  have 1: "well_formed type_all_missing"
    by (simp add: well_formed_def rectangular_def type_all_missing_def py_strip_def is_space_def)
  have 2: "\<not> type_readable type_all_missing"
    by (simp add: type_readable_def strip_columns_def type_all_missing_def py_strip_def
          is_space_def str_ok_def is_text_def)
  from 1 2 clean_data_raises [OF 2] show ?thesis by simp
qed

text \<open>
  C5. On a table with distinct trimmed column names on which cleaning returns (the
  \<open>type\<close> column, if any, is readable as text), row \<open>i\<close> of \<open>genres_list\<close> is the list
  of the comma-separated pieces of row \<open>i\<close> of \<open>listed_in\<close>, each piece trimmed, that
  is, without the whitespace at its two ends; where \<open>listed_in\<close> is missing in a row,
  the list is \<open>[Unknown]\<close>; when the table has no \<open>listed_in\<close> column (under its
  trimmed name), every row has the empty list.
\<close>

theorem genres_list_spec:
  assumes "well_formed df" and "type_readable df"
  shows "\<exists>df' gl. clean_data to_datetime df = Inr df' \<and> get_col df' ''genres_list'' = Inr gl \<and>
           length gl = nrows df \<and>
           (case get_col (strip_columns df) ''listed_in'' of
              Inr xs \<Rightarrow>
                \<forall>i<nrows df.
                  (\<forall>s. xs ! i = Str s \<longrightarrow>
                     gl ! i = Lst (map py_strip (split_on CHR '','' s)) \<and>
                     list_all2 trimmed_of (split_on CHR '','' s) (map py_strip (split_on CHR '','' s))) \<and>
                  (xs ! i = NaN \<longrightarrow> gl ! i = Lst [''Unknown''])
            | Inl e \<Rightarrow> \<forall>i<nrows df. gl ! i = Lst [])"
proof (cases "map_of (columns (strip_columns df)) ''listed_in''")
  case None
  from clean_genres [OF assms(2), of to_datetime] None obtain df' where
    c: "clean_data to_datetime df = Inr df'" and
    g: "map_of (columns df') ''genres_list'' = Some (replicate (nrows df) (Lst []))"
    by auto
  have "get_col df' ''genres_list'' = Inr (replicate (nrows df) (Lst []))"
    using g by (simp add: get_col_def)
  moreover have "get_col (strip_columns df) ''listed_in'' = Inl KeyError"
    using None by (simp add: get_col_def)
  ultimately show ?thesis using c by simp
next
  case (Some xs)
  from clean_genres [OF assms(2), of to_datetime] Some obtain df' where
    c: "clean_data to_datetime df = Inr df'" and
    g: "map_of (columns df') ''genres_list'' = Some (map genres_of (fillna (Str ''Unknown'') xs))"
    by auto
  let ?gl = "map genres_of (fillna (Str ''Unknown'') xs)"
  have len: "length xs = nrows df" using strip_col_length [OF assms(1) Some] by simp
  have u: "map py_strip (split_on CHR '','' ''Unknown'') = [''Unknown'']"
    by (simp add: py_strip_def is_space_def)
  have t: "list_all2 trimmed_of ps (map py_strip ps)" for ps
    by (simp add: list_all2_map2 list_all2_same py_strip_trimmed)
  have row: "(\<forall>s. xs ! i = Str s \<longrightarrow>
                 ?gl ! i = Lst (map py_strip (split_on CHR '','' s)) \<and>
                 list_all2 trimmed_of (split_on CHR '','' s) (map py_strip (split_on CHR '','' s))) \<and>
             (xs ! i = NaN \<longrightarrow> ?gl ! i = Lst [''Unknown''])" if "i < nrows df" for i
    using that len u t by (simp add: fillna_def genres_of_def isna_def)
  have "get_col df' ''genres_list'' = Inr ?gl" using g by (simp add: get_col_def)
  moreover have "get_col (strip_columns df) ''listed_in'' = Inr xs"
    using Some by (simp add: get_col_def)
  moreover have "length ?gl = nrows df" using len by (simp add: fillna_def)
  ultimately show ?thesis using c row by simp
qed

theorem genres_list_spec_witness:
  "well_formed two_titles \<and> type_readable two_titles \<and>
   get_col (strip_columns two_titles) ''listed_in'' = Inr [Str ''Dramas, International Movies'', NaN] \<and>
   (\<exists>df'. clean_data iso_dates two_titles = Inr df' \<and>
      get_col df' ''genres_list'' = Inr [Lst [''Dramas'', ''International Movies''], Lst [''Unknown'']]) \<and>
   well_formed titles_only \<and> type_readable titles_only \<and>
   get_col (strip_columns titles_only) ''listed_in'' = Inl KeyError \<and>
   (\<exists>df'. clean_data iso_dates titles_only = Inr df' \<and> get_col df' ''genres_list'' = Inr [Lst []])"
proof -
  have li: "get_col (strip_columns two_titles) ''listed_in'' = Inr [Str ''Dramas, International Movies'', NaN]"
    by (simp add: strip_columns_two_titles) (simp add: two_titles_def get_col_def)
  have n2: "nrows two_titles = 2" by (simp add: two_titles_def)
  have sp: "map py_strip (split_on CHR '','' ''Dramas, International Movies'') = [''Dramas'', ''International Movies'']"
    by (simp add: py_strip_def is_space_def)
  from genres_list_spec [OF well_formed_two_titles type_readable_two_titles, of iso_dates]
  obtain df' gl where
    c: "clean_data iso_dates two_titles = Inr df'" and g: "get_col df' ''genres_list'' = Inr gl" and
    l: "length gl = 2" and
    r: "\<forall>i<2. (\<forall>s. [Str ''Dramas, International Movies'', NaN] ! i = Str s \<longrightarrow>
                  gl ! i = Lst (map py_strip (split_on CHR '','' s)) \<and>
                  list_all2 trimmed_of (split_on CHR '','' s) (map py_strip (split_on CHR '','' s))) \<and>
               ([Str ''Dramas, International Movies'', NaN] ! i = NaN \<longrightarrow> gl ! i = Lst [''Unknown''])"
    unfolding li n2 by auto
  from r have "gl ! 0 = Lst (map py_strip (split_on CHR '','' ''Dramas, International Movies''))"
    by (elim allE [of _ 0]) simp
  moreover from r have "gl ! 1 = Lst [''Unknown'']"
    by (elim allE [of _ 1]) simp
  ultimately have "gl = [Lst [''Dramas'', ''International Movies''], Lst [''Unknown'']]"
    using list_of_two [OF l] sp by simp
  then have a: "\<exists>df'. clean_data iso_dates two_titles = Inr df' \<and>
      get_col df' ''genres_list'' = Inr [Lst [''Dramas'', ''International Movies''], Lst [''Unknown'']]"
    using c g by blast
  have lo: "get_col (strip_columns titles_only) ''listed_in'' = Inl KeyError"
    by (simp add: strip_columns_titles_only) (simp add: titles_only_def get_col_def)
  have n1: "nrows titles_only = 1" by (simp add: titles_only_def)
  from genres_list_spec [OF well_formed_titles_only type_readable_titles_only, of iso_dates]
  obtain df1 g1 where
    c1: "clean_data iso_dates titles_only = Inr df1" and g1: "get_col df1 ''genres_list'' = Inr g1" and
    l1: "length g1 = 1" and r1: "\<forall>i<1. g1 ! i = Lst []"
    unfolding lo n1 by auto
  from r1 have "g1 ! 0 = Lst []" by simp
  then have "g1 = [Lst []]" using list_of_one [OF l1] by simp
  then have b: "\<exists>df'. clean_data iso_dates titles_only = Inr df' \<and> get_col df' ''genres_list'' = Inr [Lst []]"
    using c1 g1 by blast
  show ?thesis
    by (intro conjI well_formed_two_titles well_formed_titles_only type_readable_two_titles
          type_readable_titles_only li lo a b)
qed

text \<open>
  C6. On a table with distinct trimmed column names on which cleaning returns, row
  \<open>i\<close> of \<open>primary_country\<close> is the part of \<open>country\<close> before its first comma,
  trimmed (without the whitespace at its two ends), when \<open>country\<close> is a text in that
  row and is not \<open>Unknown\<close>; it is \<open>Unknown\<close> when \<open>country\<close> is missing or \<open>Unknown\<close>
  in that row, and in every row when the table has no \<open>country\<close> column.
\<close>

theorem primary_country_spec:
  assumes "well_formed df" and "type_readable df"
  shows "\<exists>df' pc. clean_data to_datetime df = Inr df' \<and> get_col df' ''primary_country'' = Inr pc \<and>
           length pc = nrows df \<and>
           (case get_col (strip_columns df) ''country'' of
              Inr xs \<Rightarrow>
                \<forall>i<nrows df.
                  (\<forall>s. xs ! i = Str s \<and> s \<noteq> ''Unknown'' \<longrightarrow>
                     pc ! i = Str (py_strip (takeWhile (\<lambda>c. c \<noteq> CHR '','') s)) \<and>
                     (\<exists>t. pc ! i = Str t \<and> trimmed_of (takeWhile (\<lambda>c. c \<noteq> CHR '','') s) t)) \<and>
                  (xs ! i = NaN \<or> xs ! i = Str ''Unknown'' \<longrightarrow> pc ! i = Str ''Unknown'')
            | Inl e \<Rightarrow> \<forall>i<nrows df. pc ! i = Str ''Unknown'')"
proof (cases "map_of (columns (strip_columns df)) ''country''")
  case None
  from clean_primary_country [OF assms(2), of to_datetime] None obtain df' where
    c: "clean_data to_datetime df = Inr df'" and
    g: "map_of (columns df') ''primary_country'' = Some (replicate (nrows df) (Str ''Unknown''))"
    by auto
  have "get_col df' ''primary_country'' = Inr (replicate (nrows df) (Str ''Unknown''))"
    using g by (simp add: get_col_def)
  moreover have "get_col (strip_columns df) ''country'' = Inl KeyError"
    using None by (simp add: get_col_def)
  ultimately show ?thesis using c by simp
next
  case (Some xs)
  let ?pc = "map (\<lambda>x. projr (primary_country_of x)) (fillna (Str ''Unknown'') xs)"
  from clean_primary_country [OF assms(2), of to_datetime] Some obtain df' where
    c: "clean_data to_datetime df = Inr df'" and
    g: "map_of (columns df') ''primary_country'' = Some ?pc"
    by auto
  have len: "length xs = nrows df" using strip_col_length [OF assms(1) Some] by simp
  have row: "(\<forall>s. xs ! i = Str s \<and> s \<noteq> ''Unknown'' \<longrightarrow>
                 ?pc ! i = Str (py_strip (takeWhile (\<lambda>c. c \<noteq> CHR '','') s)) \<and>
                 (\<exists>t. ?pc ! i = Str t \<and> trimmed_of (takeWhile (\<lambda>c. c \<noteq> CHR '','') s) t)) \<and>
             (xs ! i = NaN \<or> xs ! i = Str ''Unknown'' \<longrightarrow> ?pc ! i = Str ''Unknown'')"
    if "i < nrows df" for i
    using that len by (auto simp: fillna_def isna_def primary_country_of_eq py_strip_trimmed)
  have "get_col df' ''primary_country'' = Inr ?pc" using g by (simp add: get_col_def)
  moreover have "get_col (strip_columns df) ''country'' = Inr xs"
    using Some by (simp add: get_col_def)
  moreover have "length ?pc = nrows df" using len by (simp add: fillna_def)
  ultimately show ?thesis using c row by simp
qed

lemma well_formed_spaced_countries: "well_formed spaced_countries"
  by (simp add: well_formed_def rectangular_def spaced_countries_def py_strip_def is_space_def)

lemma type_readable_spaced_countries: "type_readable spaced_countries"
  by (simp add: type_readable_def strip_columns_def spaced_countries_def py_strip_def is_space_def)

lemma list_of_three: "length xs = 3 \<Longrightarrow> xs = [xs ! 0, xs ! 1, xs ! 2]"
  by (cases xs; cases "tl xs"; cases "tl (tl xs)") auto

theorem primary_country_spec_witness:
  "well_formed spaced_countries \<and> type_readable spaced_countries \<and>
   get_col (strip_columns spaced_countries) ''country'' =
     Inr [Str ''  United States , Canada'', Str ''Unknown'', NaN] \<and>
   takeWhile (\<lambda>c. c \<noteq> CHR '','') ''  United States , Canada'' = ''  United States '' \<and>
   trimmed_of ''  United States '' ''United States'' \<and>
   (\<exists>df'. clean_data iso_dates spaced_countries = Inr df' \<and>
      get_col df' ''primary_country'' = Inr [Str ''United States'', Str ''Unknown'', Str ''Unknown'']) \<and>
   well_formed titles_only \<and> type_readable titles_only \<and>
   get_col (strip_columns titles_only) ''country'' = Inl KeyError \<and>
   (\<exists>df'. clean_data iso_dates titles_only = Inr df' \<and>
      get_col df' ''primary_country'' = Inr [Str ''Unknown''])"
proof -
  let ?xs = "[Str ''  United States , Canada'', Str ''Unknown'', NaN]"
  have li: "get_col (strip_columns spaced_countries) ''country'' = Inr ?xs"
    by (simp add: strip_columns_def spaced_countries_def get_col_def py_strip_def is_space_def)
  have n3: "nrows spaced_countries = 3" by (simp add: spaced_countries_def)
  have tw: "takeWhile (\<lambda>c. c \<noteq> CHR '','') ''  United States , Canada'' = ''  United States ''"
    by simp
  have sp: "py_strip ''  United States '' = ''United States''"
    by (simp add: py_strip_def is_space_def)
  from primary_country_spec [OF well_formed_spaced_countries type_readable_spaced_countries, of iso_dates]
  obtain df' pc where
    c: "clean_data iso_dates spaced_countries = Inr df'" and
    g: "get_col df' ''primary_country'' = Inr pc" and
    l: "length pc = 3" and
    r: "\<forall>i<3. (\<forall>s. ?xs ! i = Str s \<and> s \<noteq> ''Unknown'' \<longrightarrow>
                  pc ! i = Str (py_strip (takeWhile (\<lambda>c. c \<noteq> CHR '','') s)) \<and>
                  (\<exists>t. pc ! i = Str t \<and> trimmed_of (takeWhile (\<lambda>c. c \<noteq> CHR '','') s) t)) \<and>
               (?xs ! i = NaN \<or> ?xs ! i = Str ''Unknown'' \<longrightarrow> pc ! i = Str ''Unknown'')"
    unfolding li n3 by auto
  from r have "(0::nat) < 3 \<longrightarrow>
      (\<forall>s. ?xs ! 0 = Str s \<and> s \<noteq> ''Unknown'' \<longrightarrow>
                  pc ! 0 = Str (py_strip (takeWhile (\<lambda>c. c \<noteq> CHR '','') s)) \<and>
                  (\<exists>t. pc ! 0 = Str t \<and> trimmed_of (takeWhile (\<lambda>c. c \<noteq> CHR '','') s) t)) \<and>
      (?xs ! 0 = NaN \<or> ?xs ! 0 = Str ''Unknown'' \<longrightarrow> pc ! 0 = Str ''Unknown'')"
    by (rule spec)
  then have "(\<forall>s. ?xs ! 0 = Str s \<and> s \<noteq> ''Unknown'' \<longrightarrow>
                  pc ! 0 = Str (py_strip (takeWhile (\<lambda>c. c \<noteq> CHR '','') s)) \<and>
                  (\<exists>t. pc ! 0 = Str t \<and> trimmed_of (takeWhile (\<lambda>c. c \<noteq> CHR '','') s) t)) \<and>
      (?xs ! 0 = NaN \<or> ?xs ! 0 = Str ''Unknown'' \<longrightarrow> pc ! 0 = Str ''Unknown'')"
    by (rule mp) simp
  then have "(\<forall>s. ?xs ! 0 = Str s \<and> s \<noteq> ''Unknown'' \<longrightarrow>
                  pc ! 0 = Str (py_strip (takeWhile (\<lambda>c. c \<noteq> CHR '','') s)) \<and>
                  (\<exists>t. pc ! 0 = Str t \<and> trimmed_of (takeWhile (\<lambda>c. c \<noteq> CHR '','') s) t))"
    by (rule conjunct1)
  then have "?xs ! 0 = Str ''  United States , Canada'' \<and> ''  United States , Canada'' \<noteq> ''Unknown'' \<longrightarrow>
      pc ! 0 = Str (py_strip (takeWhile (\<lambda>c. c \<noteq> CHR '','') ''  United States , Canada'')) \<and>
      (\<exists>t. pc ! 0 = Str t \<and> trimmed_of (takeWhile (\<lambda>c. c \<noteq> CHR '','') ''  United States , Canada'') t)"
    by (rule spec)
  moreover have "?xs ! 0 = Str ''  United States , Canada'' \<and> ''  United States , Canada'' \<noteq> ''Unknown''"
    by simp
  ultimately have r0: "pc ! 0 = Str (py_strip (takeWhile (\<lambda>c. c \<noteq> CHR '','') ''  United States , Canada'')) \<and>
      (\<exists>t. pc ! 0 = Str t \<and> trimmed_of (takeWhile (\<lambda>c. c \<noteq> CHR '','') ''  United States , Canada'') t)"
    by (rule mp)
  then have "pc ! 0 = Str (py_strip (takeWhile (\<lambda>c. c \<noteq> CHR '','') ''  United States , Canada''))"
    by (rule conjunct1)
  then have p0: "pc ! 0 = Str ''United States''" by (simp only: tw sp)
  from r0 obtain t where
    t: "pc ! 0 = Str t" "trimmed_of (takeWhile (\<lambda>c. c \<noteq> CHR '','') ''  United States , Canada'') t"
    by blast
  have "t = ''United States''" using t(1) p0 by simp
  then have tr: "trimmed_of ''  United States '' ''United States''"
    using t(2) by (simp only: tw)
  from r have p1: "pc ! 1 = Str ''Unknown''"
    by (elim allE [of _ 1]) simp
  from r have p2: "pc ! 2 = Str ''Unknown''"
    by (elim allE [of _ 2]) simp
  have "pc = [Str ''United States'', Str ''Unknown'', Str ''Unknown'']"
    using list_of_three [OF l] p0 p1 p2 by simp
  then have a: "\<exists>df'. clean_data iso_dates spaced_countries = Inr df' \<and>
      get_col df' ''primary_country'' = Inr [Str ''United States'', Str ''Unknown'', Str ''Unknown'']"
    using c g by blast
  have lo: "get_col (strip_columns titles_only) ''country'' = Inl KeyError"
    by (simp add: strip_columns_titles_only) (simp add: titles_only_def get_col_def)
  have n1: "nrows titles_only = 1" by (simp add: titles_only_def)
  from primary_country_spec [OF well_formed_titles_only type_readable_titles_only, of iso_dates]
  obtain df1 g1 where
    c1: "clean_data iso_dates titles_only = Inr df1" and g1: "get_col df1 ''primary_country'' = Inr g1" and
    l1: "length g1 = 1" and r1: "\<forall>i<1. g1 ! i = Str ''Unknown''"
    unfolding lo n1 by auto
  from r1 have "g1 ! 0 = Str ''Unknown''" by simp
  then have "g1 = [Str ''Unknown'']" using list_of_one [OF l1] by simp
  then have b: "\<exists>df'. clean_data iso_dates titles_only = Inr df' \<and>
      get_col df' ''primary_country'' = Inr [Str ''Unknown'']"
    using c1 g1 by blast
  show ?thesis
    by (intro conjI well_formed_spaced_countries type_readable_spaced_countries
          well_formed_titles_only type_readable_titles_only li tw tr lo a b)
qed

section \<open>The run and its renderers\<close>

text \<open>
  C4. When the input path names nothing that exists, the run makes its two output
  directories, prints the diagnostic and exits with status 1; no figure and no
  summary table is written.
\<close>

theorem missing_file_aborts:
  assumes "fs (csv a) = None"
  shows "main fs to_datetime a =
           ([MakeDirs ''plots'', MakeDirs ''output'',
             Print (''ERROR: CSV file not found at '' @ csv a)], Exited 1) \<and>
         filter is_artifact (fst (main fs to_datetime a)) = []"
  using assms by (simp add: main_def read_data_def ensure_dirs_def is_artifact_def)

theorem missing_file_aborts_witness:
  "one_file (csv (default_args ''gone.csv'')) = None \<and>
   main one_file iso_dates (default_args ''gone.csv'') =
     ([MakeDirs ''plots'', MakeDirs ''output'', Print ''ERROR: CSV file not found at gone.csv''],
      Exited 1) \<and>
   filter is_artifact (fst (main one_file iso_dates (default_args ''gone.csv''))) = []"
proof -
  have h: "one_file (csv (default_args ''gone.csv'')) = None"
    by (simp add: default_args_def one_file_def)
  have c: "csv (default_args ''gone.csv'') = ''gone.csv''" by (simp add: default_args_def)
  note r = missing_file_aborts [of one_file "default_args ''gone.csv''" iso_dates, OF h]
  have m: "main one_file iso_dates (default_args ''gone.csv'') =
     ([MakeDirs ''plots'', MakeDirs ''output'', Print ''ERROR: CSV file not found at gone.csv''],
      Exited 1)"
    using conjunct1 [OF r] unfolding c by simp
  have f: "filter is_artifact (fst (main one_file iso_dates (default_args ''gone.csv''))) = []"
    using r by (rule conjunct2)
  show ?thesis by (intro conjI h m f)
qed

text \<open>
  C1. On a table that has only a \<open>title\<close> column, the renderers for the yearly trend
  and the ratings print their message and return, but the type-count renderer raises
  \<open>KeyError\<close> (no \<open>type\<close> column), the genre renderer raises \<open>ValueError\<close> (no
  genre to unpack) and the people renderer raises \<open>KeyError\<close> (no \<open>director\<close>
  column); the run ends with the first of these uncaught, after making the
  directories and before any artifact.
\<close>

theorem absent_columns_abort_run:
  "main (\<lambda>p. Some titles_only) iso_dates (default_args ''netflix_titles.csv'') =
     ([MakeDirs ''plots'', MakeDirs ''output''], Uncaught KeyError) \<and>
   (\<exists>df. clean_data iso_dates titles_only = Inr df \<and>
      plot_movies_vs_tv df = Inl KeyError \<and>
      plot_top_genres df 12 = Inl ValueError \<and>
      top_directors_actors df 10 = Inl KeyError \<and>
      plot_yearly_trend df = Inr [Print ''No year_added information available to plot yearly trend.''] \<and>
      plot_rating_distribution df 20 = Inr [Print ''No rating column present''])"
proof -
  let ?df = "\<lparr>nrows = 1, columns = [(''title'', [Str ''Only a title'']), (''year_added'', [NaN]),
     (''genres_list'', [Lst []]), (''duration_parsed'', [NaN]), (''primary_country'', [Str ''Unknown''])]\<rparr>"
  have m: "main (\<lambda>p. Some titles_only) iso_dates (default_args ''netflix_titles.csv'') =
     ([MakeDirs ''plots'', MakeDirs ''output''], Uncaught KeyError)"
    by code_simp
  have c: "clean_data iso_dates titles_only = Inr ?df" by code_simp
  have 1: "plot_movies_vs_tv ?df = Inl KeyError" by code_simp
  have 2: "plot_top_genres ?df 12 = Inl ValueError" by code_simp
  have 3: "top_directors_actors ?df 10 = Inl KeyError" by code_simp
  have 4: "plot_yearly_trend ?df = Inr [Print ''No year_added information available to plot yearly trend.'']"
    by code_simp
  have 5: "plot_rating_distribution ?df 20 = Inr [Print ''No rating column present'']"
    by code_simp
  from m c 1 2 3 4 5 show ?thesis by blast
qed

text \<open>
  C3. On the two-title table, whose second row has no cast, cleaning fills the cast
  with \<open>Unknown\<close>; the director tally leaves \<open>Unknown\<close> out, the actor tally counts
  \<open>Unknown\<close> once and plots it as an actor.
\<close>

theorem unknown_counted_as_actor:
  "\<exists>df. clean_data iso_dates two_titles = Inr df \<and>
      get_col df ''cast'' = Inr [Str ''Al, Bo, Cy, Di, Ed, Flo, Gus, Hal'', Str ''Unknown''] \<and>
      actor_counter [''Al, Bo, Cy, Di, Ed, Flo, Gus, Hal'', ''Unknown''] =
        [(''Al'', 1), (''Bo'', 1), (''Cy'', 1), (''Di'', 1), (''Ed'', 1), (''Unknown'', 1)] \<and>
      top_directors_actors df 10 =
        Inr (saved ''plots/top_directors.png'' (Barplot [1] [Str ''Ann Lee'']) @
             saved ''plots/top_actors.png''
               (Barplot [1, 1, 1, 1, 1, 1]
                  [Str ''Al'', Str ''Bo'', Str ''Cy'', Str ''Di'', Str ''Ed'', Str ''Unknown'']))"
proof -
  let ?df = "\<lparr>nrows = 2,
      columns =
        [(''type'', [Str ''Movie'', Str ''TV Show'']),
         (''director'', [Str ''Ann Lee'', Str ''Unknown'']),
         (''cast'', [Str ''Al, Bo, Cy, Di, Ed, Flo, Gus, Hal'', Str ''Unknown'']),
         (''country'', [Str ''Canada, United States'', Str ''Unknown'']),
         (''listed_in'', [Str ''Dramas, International Movies'', Str ''Unknown'']),
         (''date_added'', [Date 2020 1 15, Date 2021 3 2]),
         (''duration'', [Str ''90 min'', Str ''2 Seasons'']),
         (''year_added'', [Num 2020, Num 2021]),
         (''genres_list'', [Lst [''Dramas'', ''International Movies''], Lst [''Unknown'']]),
         (''duration_parsed'', [Num 90, Num 2]),
         (''primary_country'', [Str ''Canada'', Str ''Unknown''])]\<rparr>"
  have c: "clean_data iso_dates two_titles = Inr ?df" by code_simp
  have 1: "get_col ?df ''cast'' = Inr [Str ''Al, Bo, Cy, Di, Ed, Flo, Gus, Hal'', Str ''Unknown'']"
    by code_simp
  have 2: "actor_counter [''Al, Bo, Cy, Di, Ed, Flo, Gus, Hal'', ''Unknown''] =
        [(''Al'', 1), (''Bo'', 1), (''Cy'', 1), (''Di'', 1), (''Ed'', 1), (''Unknown'', 1)]"
    by code_simp
  have 3: "top_directors_actors ?df 10 =
        Inr (saved ''plots/top_directors.png'' (Barplot [1] [Str ''Ann Lee'']) @
             saved ''plots/top_actors.png''
               (Barplot [1, 1, 1, 1, 1, 1]
                  [Str ''Al'', Str ''Bo'', Str ''Cy'', Str ''Di'', Str ''Ed'', Str ''Unknown'']))"
    by code_simp
  from c 1 2 3 show ?thesis by blast
qed

section \<open>Tallies\<close>

lemma map_of_bump:
  "map_of (bump k acc) = (map_of acc)(k \<mapsto> (case map_of acc k of None \<Rightarrow> 1 | Some n \<Rightarrow> n + 1))"
  by (induction k acc rule: bump.induct) (auto simp: fun_eq_iff)

lemma names_bump:
  "map fst (bump k acc) = (if k \<in> set (map fst acc) then map fst acc else map fst acc @ [k])"
  by (induction k acc rule: bump.induct) (auto simp: rev_image_eqI)

lemma distinct_bump: "distinct (map fst acc) \<Longrightarrow> distinct (map fst (bump k acc))"
  by (simp add: names_bump)

lemma distinct_fold_bump: "distinct (map fst acc) \<Longrightarrow> distinct (map fst (fold bump xs acc))"
  by (induction xs arbitrary: acc) (simp_all add: distinct_bump)

lemma map_of_fold_bump:
  "map_of (fold bump xs acc) k =
     (if k \<in> set xs
      then Some (count_list xs k + (case map_of acc k of None \<Rightarrow> 0 | Some n \<Rightarrow> n))
      else map_of acc k)"
proof (induction xs arbitrary: acc)
  case Nil
  show ?case by simp
next
  case (Cons x xs)
  show ?case
  proof (cases "k = x")
    case True
    then show ?thesis
      using Cons.IH [of "bump x acc"] by (simp add: map_of_bump split: option.splits)
  next
    case False
    then show ?thesis
      using Cons.IH [of "bump x acc"] by (simp add: map_of_bump)
  qed
qed

lemma map_of_count_items:
  "map_of (count_items xs) k = (if k \<in> set xs then Some (count_list xs k) else None)"
  by (simp add: count_items_def map_of_fold_bump)

lemma distinct_count_items: "distinct (map fst (count_items xs))"
  by (simp add: count_items_def distinct_fold_bump)

lemma distinct_keys_sort_key:
  assumes "distinct (map fst kvs)"
  shows "distinct (map fst (sort_key f kvs))"
proof -
  have "card (set (map fst (sort_key f kvs))) = card (set (map fst kvs))" by simp
  also have "\<dots> = length (map fst kvs)" using assms by (rule distinct_card)
  also have "\<dots> = length (map fst (sort_key f kvs))" by simp
  finally show ?thesis by (rule card_distinct)
qed

lemma map_of_sort_key:
  assumes "distinct (map fst kvs)"
  shows "map_of (sort_key f kvs) = map_of kvs"
proof -
  have "set (sort_key f kvs) = set kvs" by simp
  then show ?thesis
    using assms distinct_keys_sort_key [OF assms, of f] by (simp add: map_of_inject_set)
qed

lemma distinct_value_counts: "distinct (map fst (value_counts xs))"
  by (simp add: value_counts_def by_count_desc_def distinct_keys_sort_key distinct_count_items)

lemma map_of_value_counts:
  "map_of (value_counts xs) k = (if k \<in> set xs then Some (count_list xs k) else None)"
  by (simp add: value_counts_def by_count_desc_def map_of_sort_key distinct_count_items
        map_of_count_items)

lemma keys_value_counts: "fst ` set (value_counts xs) = set xs"
proof -
  have "fst ` set (value_counts xs) = dom (map_of (value_counts xs))"
    by (simp add: dom_map_of_conv_image_fst)
  also have "\<dots> = set xs" by (auto simp: dom_def map_of_value_counts)
  finally show ?thesis .
qed

lemma value_counts_empty_iff: "value_counts xs = [] \<longleftrightarrow> xs = []"
  using keys_value_counts [of xs] by (cases "value_counts xs") auto

lemma director_tally_excludes_unknown:
  "''Unknown'' \<notin> fst ` set (value_counts (director_series col))"
  by (simp add: keys_value_counts director_series_def)

lemma apply_each_as_int_Num: "apply_each as_int (map Num ys) = Inr ys"
  by (induction ys) (simp_all add: as_int_def)

lemma yearly_series_spec:
  assumes "dropna col = map Num ys"
  shows "\<exists>s. yearly_series col = Inr s \<and> sorted (map fst s) \<and> distinct (map fst s) \<and>
           (\<forall>y. map_of s y = (if y \<in> set ys then Some (count_list ys y) else None))"
proof -
  let ?s = "sort_index (value_counts ys)"
  have 1: "yearly_series col = Inr ?s"
    by (simp add: yearly_series_def assms apply_each_as_int_Num)
  have 2: "sorted (map fst ?s)" by (simp add: sort_index_def)
  have 3: "distinct (map fst ?s)"
    by (simp add: sort_index_def distinct_keys_sort_key distinct_value_counts)
  have 4: "map_of ?s y = (if y \<in> set ys then Some (count_list ys y) else None)" for y
    by (simp add: sort_index_def map_of_sort_key distinct_value_counts map_of_value_counts)
  from 1 2 3 4 show ?thesis by blast
qed

lemma year_range_spec:
  assumes "dropna col = map Num ys"
  shows "year_range col =
           Inr (if ys = [] then (NaN, NaN) else (Num (Min (set ys)), Num (Max (set ys))))"
proof (cases ys)
  case Nil
  then show ?thesis by (simp add: year_range_def assms)
next
  case (Cons y ys')
  have a: "apply_each as_int (dropna col) = Inr (y # ys')"
    using apply_each_as_int_Num [of ys] by (simp only: assms Cons)
  have "fold min ys' y = Min (set ys)" "fold max ys' y = Max (set ys)"
    by (simp_all only: Cons Min.set_eq_fold Max.set_eq_fold)
  then show ?thesis
    using Cons by (simp add: year_range_def a)
qed

lemma fold_cond_bump:
  "fold (\<lambda>a acc. if P a then bump a acc else acc) xs acc = fold bump (filter P xs) acc"
  by (induction xs arbitrary: acc) simp_all

lemma fold_fold_concat: "fold (\<lambda>c acc. fold g (f c) acc) cs acc = fold g (concat (map f cs)) acc"
  by (induction cs arbitrary: acc) simp_all

lemma actor_counter_eq:
  "actor_counter casts =
     count_items (concat (map (\<lambda>c. filter (\<lambda>a. a \<noteq> [])
                                   (take 5 (map py_strip (split_on CHR '','' c)))) casts))"
  by (simp add: actor_counter_def count_items_def fold_cond_bump fold_fold_concat)

lemma all_genres_eq: "all_genres gls = count_items (concat gls)"
  using fold_fold_concat [of bump "\<lambda>gl. gl" gls "[]"] by (simp add: all_genres_def count_items_def)

lemma count_list_concat: "count_list (concat xss) a = (\<Sum>xs\<leftarrow>xss. count_list xs a)"
  by (induction xss) simp_all

lemma count_list_filter: "count_list (filter P xs) a = (if P a then count_list xs a else 0)"
  by (induction xs) auto

text \<open>
  C7. In the actor tally, the count of a name \<open>a\<close> is the number of times \<open>a\<close>
  stands among the first five comma-separated, trimmed names of a cast text, summed
  over the cast texts; names after the fifth add nothing, and a name that is never
  among the first five has no entry. A cast text of eight names gives exactly its
  first five, once each.
\<close>

theorem actor_cap:
  "map_of (actor_counter casts) a =
     (let n = (\<Sum>c\<leftarrow>casts. count_list (take 5 (map py_strip (split_on CHR '','' c))) a)
      in if a \<noteq> [] \<and> 0 < n then Some n else None) \<and>
   actor_counter [''Al, Bo, Cy, Di, Ed, Flo, Gus, Hal''] =
     [(''Al'', 1), (''Bo'', 1), (''Cy'', 1), (''Di'', 1), (''Ed'', 1)]"
proof -
  let ?f = "\<lambda>c. filter (\<lambda>a. a \<noteq> []) (take 5 (map py_strip (split_on CHR '','' c)))"
  let ?L = "concat (map ?f casts)"
  let ?n = "\<Sum>c\<leftarrow>casts. count_list (take 5 (map py_strip (split_on CHR '','' c))) a"
  have c: "count_list ?L a = (if a \<noteq> [] then ?n else 0)"
    by (simp add: count_list_concat count_list_filter comp_def)
  have m: "a \<in> set ?L \<longleftrightarrow> 0 < count_list ?L a"
    using count_list_0_iff [of ?L a] by (metis neq0_conv)
  have "map_of (actor_counter casts) a = (if a \<in> set ?L then Some (count_list ?L a) else None)"
    by (simp only: actor_counter_eq map_of_count_items)
  also have "\<dots> = (if a \<noteq> [] \<and> 0 < ?n then Some ?n else None)"
    unfolding m c by (cases "a = []") (simp_all del: sum_list_eq_0_iff)
  finally have 1: "map_of (actor_counter casts) a = (if a \<noteq> [] \<and> 0 < ?n then Some ?n else None)" .
  have 2: "actor_counter [''Al, Bo, Cy, Di, Ed, Flo, Gus, Hal''] =
     [(''Al'', 1), (''Bo'', 1), (''Cy'', 1), (''Di'', 1), (''Ed'', 1)]"
    by code_simp
  from 1 2 show ?thesis by (simp add: Let_def)
qed

section \<open>The yearly trend and the year range of the summary\<close>

lemma dropna_dt_year: "\<exists>ys. dropna (dt_year zs) = map Num ys"
proof (induction zs)
  case Nil
  show ?case by (simp add: dropna_def dt_year_def)
next
  case (Cons z zs)
  then obtain ys where ys: "dropna (dt_year zs) = map Num ys" by blast
  show ?case
  proof (cases z)
    case (Date y m d)
    then have "dropna (dt_year (z # zs)) = map Num (y # ys)"
      using ys by (simp add: dropna_def dt_year_def isna_def)
    then show ?thesis by blast
  qed (use ys in \<open>auto simp: dropna_def dt_year_def isna_def\<close>)
qed

lemma dropna_replicate_NaN: "dropna (replicate n NaN) = map Num []"
  by (simp add: dropna_def isna_def)

lemma post_dates_year_added:
  "map_of (columns (split_genres (type_stripped (fill_unknown df)))) ''year_added'' =
   map_of (columns df) ''year_added''"
  by (simp add: cols_split_genres cols_type_stripped cols_fill_unknown split: option.splits)

lemma clean_year_added:
  assumes "clean_data td df = Inr df'"
  shows "\<exists>col ys. map_of (columns df') ''year_added'' = Some col \<and> dropna col = map Num ys"
proof -
  have "map_of (columns df') ''year_added'' =
          map_of (columns (parse_dates td (strip_columns df))) ''year_added''"
    using assms clean_data_readable [OF assms]
    by (auto simp: clean_data_eq Let_def cols_set_col post_dates_year_added)
  also have "\<dots> = Some (case map_of (columns (strip_columns df)) ''date_added'' of
                          Some xs \<Rightarrow> dt_year (map date_cell (td xs))
                        | None \<Rightarrow> replicate (nrows (strip_columns df)) NaN)"
    by (simp add: cols_parse_dates split: option.splits)
  finally show ?thesis
    using dropna_dt_year dropna_replicate_NaN by (auto split: option.splits)
qed

lemma clean_primary_country_present:
  assumes "clean_data td df = Inr df'"
  shows "\<exists>pcs. map_of (columns df') ''primary_country'' = Some pcs \<and> dropna pcs = pcs"
proof -
  from clean_primary_country [OF clean_data_readable [OF assms], of td] assms obtain pcs where
    p: "map_of (columns df') ''primary_country'' = Some pcs" and
    q: "pcs = (case map_of (columns (strip_columns df)) ''country'' of
                 Some xs \<Rightarrow> map (\<lambda>x. projr (primary_country_of x)) (fillna (Str ''Unknown'') xs)
               | None \<Rightarrow> replicate (nrows df) (Str ''Unknown''))"
    by auto
  have "\<forall>c \<in> set pcs. c \<noteq> NaN"
    unfolding q by (auto simp: primary_country_of_eq split: option.splits)
  then have "dropna pcs = pcs" by (simp add: dropna_def isna_def)
  with p show ?thesis by blast
qed

lemma idxmax_value_counts: "xs \<noteq> [] \<Longrightarrow> \<exists>k. idxmax (value_counts xs) = Inr k"
  using value_counts_empty_iff [of xs] by (cases "value_counts xs") (auto simp: idxmax_def)

lemma summary_years:
  assumes y: "map_of (columns df') ''year_added'' = Some col"
    and r: "year_range col = Inr (lo, hi)"
    and p: "map_of (columns df') ''primary_country'' = Some pcs" "dropna pcs = pcs"
  shows "\<exists>t. summary_of df' = Inr t \<and> map_of t (Str ''earliest_year_added'') = Some lo \<and>
           map_of t (Str ''latest_year_added'') = Some hi"
proof -
  obtain tc where tc: "(if pcs \<noteq> [] then idxmax (value_counts (dropna pcs)) else Inr (Str ''Unknown'')) = Inr tc"
    using idxmax_value_counts [of pcs] p(2) by (cases "pcs = []") auto
  define s2 where "s2 =
    (case map_of (columns df') ''type'' of
       Some ts \<Rightarrow> fold (\<lambda>kv acc. assign (fst kv) (Num (int (snd kv))) acc) (value_counts (dropna ts))
                    (assign (Str ''total_titles'') (Num (int (nrows df'))) [])
     | None \<Rightarrow> assign (Str ''total_titles'') (Num (int (nrows df'))) [])"
  let ?t = "assign (Str ''top_country'') tc
              (assign (Str ''latest_year_added'') hi (assign (Str ''earliest_year_added'') lo s2))"
  have g: "get_col df' ''primary_country'' = Inr pcs" using p(1) by (simp add: get_col_def)
  have "summary_of df' = Inr ?t"
    unfolding summary_of_def Let_def s2_def [symmetric] y g
    by (simp only: option.case sum.case r tc fst_conv snd_conv)
  moreover have "map_of ?t (Str ''earliest_year_added'') = Some lo"
    by (simp add: map_of_assign)
  moreover have "map_of ?t (Str ''latest_year_added'') = Some hi"
    by (simp add: map_of_assign)
  ultimately show ?thesis by blast
qed

lemma well_formed_two_dates: "well_formed two_dates"
  by (simp add: well_formed_def rectangular_def two_dates_def py_strip_def is_space_def)

lemma type_readable_two_dates: "type_readable two_dates"
  by (simp add: type_readable_def strip_columns_def two_dates_def py_strip_def is_space_def)

text \<open>
  C8. On a table with distinct trimmed column names on which cleaning returns, let
  \<open>ys\<close> be the years of \<open>year_added\<close> of the cleaned table in the rows where it is
  present. If there is none, the trend renderer prints its message;
  otherwise it plots a series whose keys are strictly ascending and which maps each
  year to the number of rows with that year, and to nothing else. The summary holds
  the least of \<open>ys\<close> as \<open>earliest_year_added\<close> and the greatest as
  \<open>latest_year_added\<close> (the missing marker when there is no year). For the two rows
  added on 2020-01-15 and 2021-03-02 the series is 2020: 1, 2021: 1, and the summary
  gives 2020 and 2021.
\<close>

theorem yearly_trend_and_year_range:
  assumes "well_formed df" and "type_readable df"
  shows "\<exists>df' col ys. clean_data to_datetime df = Inr df' \<and> get_col df' ''year_added'' = Inr col \<and>
           dropna col = map Num ys \<and>
           (if ys = [] then
              plot_yearly_trend df' =
                Inr [Print ''No year_added information available to plot yearly trend.'']
            else (\<exists>s. plot_yearly_trend df' =
                        Inr (saved ''plots/content_added_per_year.png'' (Lineplot s)) \<and>
                      sorted (map fst s) \<and> distinct (map fst s) \<and>
                      (\<forall>y. map_of s y = (if y \<in> set ys then Some (count_list ys y) else None)))) \<and>
           (\<exists>t. summary_of df' = Inr t \<and>
              map_of t (Str ''earliest_year_added'') = Some (if ys = [] then NaN else Num (Min (set ys))) \<and>
              map_of t (Str ''latest_year_added'') = Some (if ys = [] then NaN else Num (Max (set ys))))"
proof -
  obtain df' where c: "clean_data to_datetime df = Inr df'"
    using clean_data_nrows [OF assms(2), of to_datetime] by blast
  from clean_year_added [OF c] obtain col ys where
    y: "map_of (columns df') ''year_added'' = Some col" and d: "dropna col = map Num ys" by blast
  from clean_primary_country_present [OF c] obtain pcs where
    p: "map_of (columns df') ''primary_country'' = Some pcs" "dropna pcs = pcs" by blast
  have g: "get_col df' ''year_added'' = Inr col" using y by (simp add: get_col_def)
  have e: "list_all isna col \<longleftrightarrow> ys = []"
  proof -
    have "list_all isna col \<longleftrightarrow> dropna col = []"
      by (simp add: dropna_def list_all_iff filter_empty_conv)
    then show ?thesis by (simp add: d)
  qed
  have trend: "if ys = [] then
              plot_yearly_trend df' =
                Inr [Print ''No year_added information available to plot yearly trend.'']
            else (\<exists>s. plot_yearly_trend df' =
                        Inr (saved ''plots/content_added_per_year.png'' (Lineplot s)) \<and>
                      sorted (map fst s) \<and> distinct (map fst s) \<and>
                      (\<forall>y. map_of s y = (if y \<in> set ys then Some (count_list ys y) else None)))"
  proof (cases "ys = []")
    case True
    then show ?thesis using e by (simp add: plot_yearly_trend_def y)
  next
    case False
    from yearly_series_spec [OF d] obtain s where
      s: "yearly_series col = Inr s" "sorted (map fst s)" "distinct (map fst s)"
         "\<forall>y. map_of s y = (if y \<in> set ys then Some (count_list ys y) else None)" by blast
    have "plot_yearly_trend df' = Inr (saved ''plots/content_added_per_year.png'' (Lineplot s))"
      using False e by (simp add: plot_yearly_trend_def y s(1))
    then show ?thesis using False s by auto
  qed
  have "year_range col = Inr (if ys = [] then NaN else Num (Min (set ys)),
                              if ys = [] then NaN else Num (Max (set ys)))"
    using year_range_spec [OF d] by simp
  from summary_years [OF y this p] c g d trend show ?thesis by blast
qed

theorem yearly_trend_and_year_range_witness:
  "well_formed two_dates \<and> type_readable two_dates \<and>
   (\<exists>df'. clean_data iso_dates two_dates = Inr df' \<and>
      get_col df' ''year_added'' = Inr [Num 2020, Num 2021] \<and>
      plot_yearly_trend df' =
        Inr (saved ''plots/content_added_per_year.png'' (Lineplot [(2020, 1), (2021, 1)])) \<and>
      (\<exists>t. summary_of df' = Inr t \<and>
         map_of t (Str ''earliest_year_added'') = Some (Num 2020) \<and>
         map_of t (Str ''latest_year_added'') = Some (Num 2021)))"
proof -
  let ?df = "\<lparr>nrows = 2,
      columns =
        [(''date_added'', [Date 2020 1 15, Date 2021 3 2]),
         (''year_added'', [Num 2020, Num 2021]),
         (''genres_list'', [Lst [], Lst []]),
         (''duration_parsed'', [NaN, NaN]),
         (''primary_country'', [Str ''Unknown'', Str ''Unknown''])]\<rparr>"
  have ev: "clean_data iso_dates two_dates = Inr ?df" by code_simp
  have ya: "get_col ?df ''year_added'' = Inr [Num 2020, Num 2021]" by code_simp
  have tr: "plot_yearly_trend ?df =
        Inr (saved ''plots/content_added_per_year.png'' (Lineplot [(2020, 1), (2021, 1)]))"
    by code_simp
  from yearly_trend_and_year_range [OF well_formed_two_dates type_readable_two_dates, of iso_dates]
  obtain df' col ys t where
    c: "clean_data iso_dates two_dates = Inr df'" and g: "get_col df' ''year_added'' = Inr col" and
    d: "dropna col = map Num ys" and
    s: "summary_of df' = Inr t"
       "map_of t (Str ''earliest_year_added'') = Some (if ys = [] then NaN else Num (Min (set ys)))"
       "map_of t (Str ''latest_year_added'') = Some (if ys = [] then NaN else Num (Max (set ys)))"
    by blast
  have df': "df' = ?df" using c ev by simp
  have "col = [Num 2020, Num 2021]" using g ya unfolding df' by simp
  then have "map Num ys = [Num 2020, Num 2021]" using d by (simp add: dropna_def isna_def)
  then have ys: "ys = [2020, 2021]" by auto
  have "map_of t (Str ''earliest_year_added'') = Some (Num 2020)"
    using s(2) unfolding ys by simp
  moreover have "map_of t (Str ''latest_year_added'') = Some (Num 2021)"
    using s(3) unfolding ys by simp
  ultimately have "\<exists>t. summary_of ?df = Inr t \<and>
         map_of t (Str ''earliest_year_added'') = Some (Num 2020) \<and>
         map_of t (Str ''latest_year_added'') = Some (Num 2021)"
    using s(1) unfolding df' by blast
  with ev ya tr well_formed_two_dates type_readable_two_dates show ?thesis by blast
qed

section \<open>The frame condition of the cleaning step\<close>

lemma names_set_col:
  "map fst (columns (set_col df c v)) =
     (if c \<in> set (map fst (columns df)) then map fst (columns df) else map fst (columns df) @ [c])"
  by (simp add: set_col_def names_assign)

lemma names_set_col_new:
  "map fst (columns df) = L \<Longrightarrow> c \<notin> set L \<Longrightarrow> map fst (columns (set_col df c v)) = L @ [c]"
  by (auto simp: names_set_col)

lemma names_set_col_present:
  "map_of (columns df) c = Some xs \<Longrightarrow> map fst (columns (set_col df c v)) = map fst (columns df)"
  by (auto simp: names_set_col dest: map_of_SomeD intro: rev_image_eqI)

lemma names_fill_column: "map fst (columns (fill_column c df)) = map fst (columns df)"
  by (simp add: fill_column_def names_set_col_present split: option.splits)

lemma names_fill_unknown: "map fst (columns (fill_unknown df)) = map fst (columns df)"
  by (simp add: fill_unknown_def names_fill_column)

lemma names_type_stripped: "map fst (columns (type_stripped df)) = map fst (columns df)"
  by (simp add: type_stripped_def names_set_col_present split: option.splits)

lemma names_parse_dates:
  assumes "''year_added'' \<notin> set (map fst (columns df))"
  shows "map fst (columns (parse_dates td df)) = map fst (columns df) @ [''year_added'']"
proof (cases "map_of (columns df) ''date_added''")
  case None
  then show ?thesis using assms by (simp add: parse_dates_def names_set_col)
next
  case (Some xs)
  have "map fst (columns (set_col df ''date_added'' v)) = map fst (columns df)" for v
    using Some by (rule names_set_col_present)
  then show ?thesis
    using assms Some by (simp add: parse_dates_def Let_def cols_set_col names_set_col)
qed

lemma names_split_genres:
  assumes "''genres_list'' \<notin> set (map fst (columns df))"
  shows "map fst (columns (split_genres df)) = map fst (columns df) @ [''genres_list'']"
proof (cases "map_of (columns df) ''listed_in''")
  case None
  then show ?thesis using assms by (simp add: split_genres_def names_set_col)
next
  case (Some xs)
  have "map fst (columns (set_col df ''listed_in'' v)) = map fst (columns df)" for v
    using Some by (rule names_set_col_present)
  then show ?thesis
    using assms Some by (simp add: split_genres_def Let_def cols_set_col names_set_col)
qed

lemma names_strip_columns:
  "map fst (columns (strip_columns df)) = map (py_strip \<circ> fst) (columns df)"
  by (simp add: strip_columns_def comp_def case_prod_beta)

lemma clean_data_names:
  assumes "set (map (py_strip \<circ> fst) (columns df)) \<inter> set derived_names = {}"
    and "clean_data td df = Inr df'"
  shows "map fst (columns df') = map (py_strip \<circ> fst) (columns df) @ derived_names"
proof -
  let ?N = "map (py_strip \<circ> fst) (columns df)"
  have n: "''year_added'' \<notin> set ?N" "''genres_list'' \<notin> set ?N"
    "''duration_parsed'' \<notin> set ?N" "''primary_country'' \<notin> set ?N"
    using assms(1) by (auto simp: derived_names_def)
  let ?B = "parse_dates td (strip_columns df)"
  have b: "map fst (columns ?B) = ?N @ [''year_added'']"
    using n(1) by (simp add: names_parse_dates names_strip_columns)
  let ?D = "type_stripped (fill_unknown ?B)"
  have d: "map fst (columns ?D) = ?N @ [''year_added'']"
    by (simp only: names_type_stripped names_fill_unknown b)
  let ?E = "split_genres ?D"
  have e: "map fst (columns ?E) = ?N @ [''year_added'', ''genres_list'']"
    using names_split_genres [of ?D] n(2) d by simp
  have f: "map fst (columns (set_col ?E ''duration_parsed'' v)) =
             (?N @ [''year_added'', ''genres_list'']) @ [''duration_parsed'']" for v
  proof (rule names_set_col_new [OF e])
    show "''duration_parsed'' \<notin> set (?N @ [''year_added'', ''genres_list''])"
      using n(3) by simp
  qed
  have g: "map fst (columns (set_col (set_col ?E ''duration_parsed'' v) ''primary_country'' w)) =
             ((?N @ [''year_added'', ''genres_list'']) @ [''duration_parsed'']) @ [''primary_country'']"
    for v w
  proof (rule names_set_col_new [OF f])
    show "''primary_country'' \<notin> set ((?N @ [''year_added'', ''genres_list'']) @ [''duration_parsed''])"
      using n(4) by simp
  qed
  have h: "((?N @ [''year_added'', ''genres_list'']) @ [''duration_parsed'']) @ [''primary_country''] =
             ?N @ derived_names"
    by (simp add: derived_names_def)
  from assms(2) clean_data_readable [OF assms(2)] obtain v w where
    "df' = set_col (set_col ?E ''duration_parsed'' v) ''primary_country'' w"
    by (auto simp: clean_data_eq Let_def)
  then show ?thesis using g h by (simp only:)
qed

lemma rectangular_set_col:
  assumes "rectangular df" and "length v = nrows df"
  shows "rectangular (set_col df c v)"
proof -
  have "list_all (\<lambda>(c, xs). length xs = n) kvs \<Longrightarrow> length v = n \<Longrightarrow>
        list_all (\<lambda>(c, xs). length xs = n) (assign c v kvs)" for n and kvs :: "(string \<times> cell list) list"
    by (induction kvs) auto
  then show ?thesis using assms by (simp add: rectangular_def set_col_def)
qed

lemma rectangular_lookup:
  assumes "rectangular df" and "map_of (columns df) c = Some xs"
  shows "length xs = nrows df"
proof -
  from assms(2) have "(c, xs) \<in> set (columns df)" by (rule map_of_SomeD)
  with assms(1) show ?thesis by (auto simp: rectangular_def list_all_iff)
qed

lemma rectangular_strip_columns: "rectangular df \<Longrightarrow> rectangular (strip_columns df)"
  by (auto simp: rectangular_def strip_columns_def list_all_iff)

lemma rectangular_parse_dates:
  assumes "rectangular df" and "\<forall>xs. length (td xs) = length xs"
  shows "rectangular (parse_dates td df)"
proof (cases "map_of (columns df) ''date_added''")
  case None
  then show ?thesis using assms(1) by (simp add: parse_dates_def rectangular_set_col)
next
  case (Some xs)
  have l: "length (map date_cell (td xs)) = nrows df"
    using assms(2) rectangular_lookup [OF assms(1) Some] by simp
  have 1: "rectangular (set_col df ''date_added'' (map date_cell (td xs)))"
    using assms(1) l by (rule rectangular_set_col)
  have "rectangular (set_col (set_col df ''date_added'' (map date_cell (td xs))) ''year_added''
          (dt_year (map date_cell (td xs))))"
  proof (rule rectangular_set_col [OF 1])
    show "length (dt_year (map date_cell (td xs))) =
            nrows (set_col df ''date_added'' (map date_cell (td xs)))"
      using l by (simp add: dt_year_def nrows_set_col)
  qed
  then show ?thesis using Some by (simp add: parse_dates_def Let_def cols_set_col)
qed

lemma rectangular_fill_column: "rectangular df \<Longrightarrow> rectangular (fill_column c df)"
  by (auto simp: fill_column_def fillna_def rectangular_lookup intro!: rectangular_set_col
        split: option.splits)

lemma rectangular_fill_unknown: "rectangular df \<Longrightarrow> rectangular (fill_unknown df)"
  by (simp add: fill_unknown_def rectangular_fill_column)

lemma rectangular_type_stripped: "rectangular df \<Longrightarrow> rectangular (type_stripped df)"
  by (auto simp: type_stripped_def strip_cells_def rectangular_lookup intro!: rectangular_set_col
        split: option.splits)

lemma rectangular_split_genres:
  assumes "rectangular df"
  shows "rectangular (split_genres df)"
proof (cases "map_of (columns df) ''listed_in''")
  case None
  then show ?thesis using assms by (simp add: split_genres_def rectangular_set_col)
next
  case (Some xs)
  let ?f = "fillna (Str ''Unknown'') xs"
  have l: "length ?f = nrows df"
    using rectangular_lookup [OF assms Some] by (simp add: fillna_def)
  have 1: "rectangular (set_col df ''listed_in'' ?f)"
    using assms l by (rule rectangular_set_col)
  have "rectangular (set_col (set_col df ''listed_in'' ?f) ''genres_list'' (map genres_of ?f))"
  proof (rule rectangular_set_col [OF 1])
    show "length (map genres_of ?f) = nrows (set_col df ''listed_in'' ?f)"
      using l by (simp add: nrows_set_col)
  qed
  then show ?thesis using Some by (simp add: split_genres_def Let_def cols_set_col)
qed

lemma clean_data_rectangular:
  assumes "rectangular df" and "\<forall>xs. length (td xs) = length xs" and "clean_data td df = Inr df'"
  shows "rectangular df'"
proof -
  let ?E = "split_genres (type_stripped (fill_unknown (parse_dates td (strip_columns df))))"
  have e: "rectangular ?E"
    using assms(1,2)
    by (intro rectangular_split_genres rectangular_type_stripped rectangular_fill_unknown
          rectangular_parse_dates rectangular_strip_columns)
  let ?v = "case map_of (columns ?E) ''duration'' of
              Some xs \<Rightarrow> map (\<lambda>x. projr (parse_duration x)) xs
            | None \<Rightarrow> replicate (nrows ?E) NaN"
  have lv: "length ?v = nrows ?E"
    using rectangular_lookup [OF e] by (simp split: option.splits)
  have f: "rectangular (set_col ?E ''duration_parsed'' ?v)" (is "rectangular ?F")
    using e lv by (rule rectangular_set_col)
  let ?w = "case map_of (columns ?F) ''country'' of
              Some xs \<Rightarrow> map (\<lambda>x. projr (primary_country_of x)) xs
            | None \<Rightarrow> replicate (nrows ?F) (Str ''Unknown'')"
  have lw: "length ?w = nrows ?F"
    using rectangular_lookup [OF f] by (simp split: option.splits)
  have "rectangular (set_col ?F ''primary_country'' ?w)"
    using f lw by (rule rectangular_set_col)
  moreover have "df' = set_col ?F ''primary_country'' ?w"
    using assms(3) clean_data_readable [OF assms(3)] by (simp add: clean_data_eq Let_def)
  ultimately show ?thesis by simp
qed

lemma named_normalization_cases:
  "named_normalization td ''date_added'' = (\<lambda>xs. map date_cell (td xs))"
  "named_normalization td ''director'' = fillna (Str ''Unknown'')"
  "named_normalization td ''cast'' = fillna (Str ''Unknown'')"
  "named_normalization td ''country'' = fillna (Str ''Unknown'')"
  "named_normalization td ''rating'' = fillna (Str ''Unknown'')"
  "named_normalization td ''listed_in'' = fillna (Str ''Unknown'')"
  "named_normalization td ''type'' = strip_cells"
  by (simp_all add: fun_eq_iff named_normalization_def)

lemma clean_data_col:
  assumes "clean_data td df = Inr df'" and "k \<notin> set derived_names"
  shows "map_of (columns df') k =
           map_option (named_normalization td k) (map_of (columns (strip_columns df)) k)"
proof -
  let ?A = "strip_columns df"
  let ?E = "split_genres (type_stripped (fill_unknown (parse_dates td ?A)))"
  have k: "k \<noteq> ''year_added''" "k \<noteq> ''genres_list''" "k \<noteq> ''duration_parsed''"
    "k \<noteq> ''primary_country''"
    using assms(2) by (auto simp: derived_names_def)
  from assms(1) clean_data_readable [OF assms(1)] obtain v w where
    "df' = set_col (set_col ?E ''duration_parsed'' v) ''primary_country'' w"
    by (auto simp: clean_data_eq Let_def)
  then have 1: "map_of (columns df') k = map_of (columns ?E) k"
    using k by (simp add: cols_set_col)
  consider "k = ''date_added''" | "k = ''director''" | "k = ''cast''" | "k = ''country''"
    | "k = ''rating''" | "k = ''listed_in''" | "k = ''type''"
    | "k \<notin> set [''date_added'', ''director'', ''cast'', ''country'', ''rating'', ''listed_in'', ''type'']"
    by auto
  then have "map_of (columns ?E) k = map_option (named_normalization td k) (map_of (columns ?A) k)"
  proof cases
    case 8
    then have "map_option (named_normalization td k) m = m" for m
      by (cases m) (simp_all add: named_normalization_def)
    then show ?thesis
      using k 8
      by (simp add: cols_split_genres cols_type_stripped cols_fill_unknown cols_parse_dates
            split: option.splits)
  qed (simp_all add: cols_split_genres cols_type_stripped cols_fill_unknown cols_parse_dates
        named_normalization_cases split: option.splits)
  with 1 show ?thesis by simp
qed

lemma strip_columns_lookup:
  assumes "distinct (map (py_strip \<circ> fst) (columns df))" and "(c, xs) \<in> set (columns df)"
  shows "map_of (columns (strip_columns df)) (py_strip c) = Some xs"
proof -
  have "distinct (map fst (columns (strip_columns df)))"
    using assms(1) by (simp only: names_strip_columns)
  moreover have "(py_strip c, xs) \<in> set (columns (strip_columns df))"
    using assms(2) by (force simp: strip_columns_def)
  ultimately show ?thesis by (rule map_of_is_SomeI)
qed

lemma iso_dates_length: "\<forall>xs. length (iso_dates xs) = length xs"
  by (simp add: iso_dates_def)

text \<open>
  C9. Take a table with distinct trimmed column names, none of them \<open>year_added\<close>,
  \<open>genres_list\<close>, \<open>duration_parsed\<close> or \<open>primary_country\<close>, whose \<open>type\<close> column, if
  any, is readable as text, and a date parser that returns one date per row. Cleaning
  it returns a table and only adds the derived columns: the result has the same
  number of rows, every column has that many rows, every original column stands under
  its trimmed name, in its place, with its values unchanged but for the named
  normalisation of that name, and the four derived columns follow in that order.
\<close>

theorem cleaning_only_adds_derived:
  assumes "well_formed df" and "type_readable df"
    and "\<forall>xs. length (to_datetime xs) = length xs"
    and "set (map (py_strip \<circ> fst) (columns df)) \<inter> set derived_names = {}"
  shows "\<exists>df'. clean_data to_datetime df = Inr df' \<and> only_adds_derived to_datetime df df'"
proof -
  obtain df' where c: "clean_data to_datetime df = Inr df'" and n: "nrows df' = nrows df"
    using clean_data_nrows [OF assms(2), of to_datetime] by blast
  have d: "distinct (map (py_strip \<circ> fst) (columns df))" and r: "rectangular df"
    using assms(1) by (simp_all add: well_formed_def)
  have 1: "rectangular df'" using r assms(3) c by (rule clean_data_rectangular)
  have 2: "map fst (columns df') = map (py_strip \<circ> fst) (columns df) @ derived_names"
    using assms(4) c by (rule clean_data_names)
  have 3: "get_col df' (py_strip c) = Inr (named_normalization to_datetime (py_strip c) xs)"
    if m: "(c, xs) \<in> set (columns df)" for c xs
  proof -
    have "py_strip c \<in> set (map (py_strip \<circ> fst) (columns df))"
      using m by force
    then have "py_strip c \<notin> set derived_names" using assms(4) by blast
    from clean_data_col [OF c this] strip_columns_lookup [OF d m]
    show ?thesis by (simp add: get_col_def)
  qed
  have "list_all (\<lambda>(c, xs). get_col df' (py_strip c) =
                  Inr (named_normalization to_datetime (py_strip c) xs)) (columns df)"
    using 3 by (auto simp: list_all_iff)
  with n 1 2 have "only_adds_derived to_datetime df df'"
    by (simp add: only_adds_derived_def)
  with c show ?thesis by blast
qed

theorem cleaning_only_adds_derived_witness:
  "well_formed two_titles \<and> type_readable two_titles \<and>
   (\<forall>xs. length (iso_dates xs) = length xs) \<and>
   set (map (py_strip \<circ> fst) (columns two_titles)) \<inter> set derived_names = {} \<and>
   (\<exists>df'. clean_data iso_dates two_titles = Inr df' \<and> only_adds_derived iso_dates two_titles df')"
proof -
  have d: "set (map (py_strip \<circ> fst) (columns two_titles)) \<inter> set derived_names = {}"
    by (simp add: two_titles_def derived_names_def py_strip_def is_space_def)
  from cleaning_only_adds_derived
         [OF well_formed_two_titles type_readable_two_titles iso_dates_length d]
  show ?thesis
    using well_formed_two_titles type_readable_two_titles iso_dates_length d by blast
qed

text \<open>
  Without the condition on the names the statement fails: a \<open>primary_country\<close> column
  of the input is replaced by the derived column of that name, so an original value
  (\<open>Narnia\<close>) is lost and no column is added for it.
\<close>

theorem given_primary_country_overwritten:
  "well_formed country_given \<and> type_readable country_given \<and>
   get_col country_given ''primary_country'' = Inr [Str ''Narnia''] \<and>
   clean_data iso_dates country_given =
     Inr \<lparr>nrows = 1,
          columns =
            [(''title'', [Str ''Only a title'']), (''primary_country'', [Str ''Unknown'']),
             (''year_added'', [NaN]), (''genres_list'', [Lst []]), (''duration_parsed'', [NaN])]\<rparr> \<and>
   \<not> only_adds_derived iso_dates country_given
       \<lparr>nrows = 1,
        columns =
          [(''title'', [Str ''Only a title'']), (''primary_country'', [Str ''Unknown'']),
           (''year_added'', [NaN]), (''genres_list'', [Lst []]), (''duration_parsed'', [NaN])]\<rparr>"
proof -
  let ?df = "\<lparr>nrows = 1,
          columns =
            [(''title'', [Str ''Only a title'']), (''primary_country'', [Str ''Unknown'']),
             (''year_added'', [NaN]), (''genres_list'', [Lst []]), (''duration_parsed'', [NaN])]\<rparr>"
  have 1: "well_formed country_given"
    by (simp add: well_formed_def rectangular_def country_given_def py_strip_def is_space_def)
  have 0: "type_readable country_given"
    by (simp add: type_readable_def strip_columns_def country_given_def py_strip_def is_space_def)
  have 2: "get_col country_given ''primary_country'' = Inr [Str ''Narnia'']"
    by (simp add: country_given_def get_col_def)
  have 3: "clean_data iso_dates country_given = Inr ?df" by code_simp
  have 4: "\<not> only_adds_derived iso_dates country_given ?df" by code_simp
  show ?thesis by (intro conjI 1 0 2 3 4)
qed

end
